theory Spec2Isabelle
  imports Main "HOL-Library.Sublist"
begin

section \<open>Data model (shared/db\_models.py)\<close>

text \<open>
  Job identifiers are UUIDs; only their equality is ever used, so they are natural
  numbers here. A \<open>datetime\<close> is an instant, ordered as Python orders datetime objects.
  The surrogate autoincrement \<open>id\<close> columns of \<open>sync_state\<close> and \<open>sync_logs\<close> are read by
  no code path and are left out. Column names that occur in several tables carry the
  table as a prefix in all but the first.
\<close>

type_synonym uuid = nat
type_synonym datetime = int

record SyncJob =
  job_id :: uuid
  user_id :: string
  status :: string
  full_sync :: bool
  total_notes :: int
  processed_notes :: int
  failed_notes :: int
  error_message :: "string option"
  created_at :: datetime
  completed_at :: "datetime option"

record SyncState =
  state_user_id :: string
  keep_note_id :: string
  notion_page_id :: string
  last_synced_at :: datetime
  keep_modified_at :: datetime

record Credential =
  cred_user_id :: string
  google_oauth_token :: string
  notion_api_token :: string
  notion_database_id :: string
  updated_at :: datetime

record SyncLog =
  log_job_id :: uuid
  log_keep_note_id :: "string option"
  level :: string
  message :: string
  log_created_at :: datetime

text \<open>
  The database: one list of rows per table, in insertion order. The constraints of the
  schema (primary key of \<open>sync_jobs\<close> and \<open>credentials\<close>, the unique index
  \<open>idx_sync_state_user_note\<close>, the foreign key of \<open>sync_logs\<close>) are not built into the
  type: the operations below enforce them as the database does, by raising.
\<close>

record store =
  sync_jobs :: "SyncJob list"
  sync_state :: "SyncState list"
  credentials :: "Credential list"
  sync_logs :: "SyncLog list"

datatype exn =
    IntegrityError string
  | KeyError string
  | ValueError string
  | JSONDecodeError string
  | TransportError string
  | InvalidToken string
  | PyException string
  | HTTPException int string

text \<open>\<open>str(e)\<close>: a KeyError prints the repr of its key, the others their message.\<close>

fun str_exn :: "exn \<Rightarrow> string" where
  "str_exn (KeyError k) = [CHR 0x27] @ k @ [CHR 0x27]"
| "str_exn (IntegrityError m) = m"
| "str_exn (ValueError m) = m"
| "str_exn (JSONDecodeError m) = m"
| "str_exn (TransportError m) = m"
| "str_exn (InvalidToken m) = m"
| "str_exn (PyException m) = m"
| "str_exn (HTTPException c m) = m"

section \<open>Store operations (shared/db\_operations.py)\<close>

text \<open>
  Each operation runs in a session of its own and commits, so it is one atomic step on
  the store. An operation that reads a clock takes the reading as an argument.
\<close>

subsection \<open>Sync state\<close>

definition get_sync_state_by_user :: "store \<Rightarrow> string \<Rightarrow> SyncState list" where
  "get_sync_state_by_user db uid = filter (\<lambda>r. state_user_id r = uid) (sync_state db)"

text \<open>
  \<open>scalar_one_or_none()\<close>: the unique index admits at most one matching row, so the
  result is the first match.
\<close>

definition get_sync_record :: "store \<Rightarrow> string \<Rightarrow> string \<Rightarrow> SyncState option" where
  "get_sync_record db uid nid =
     find (\<lambda>r. state_user_id r = uid \<and> keep_note_id r = nid) (sync_state db)"

text \<open>
  \<open>INSERT ... ON CONFLICT (user_id, keep_note_id) DO UPDATE\<close>. The inserted row carries
  the clock reading of line 97, the conflict update the reading of line 106.
\<close>

definition upsert_sync_state ::
  "store \<Rightarrow> string \<Rightarrow> string \<Rightarrow> string \<Rightarrow> datetime \<Rightarrow> datetime \<Rightarrow> datetime
     \<Rightarrow> SyncState option \<times> store" where
  "upsert_sync_state db uid nid page modified now_insert now_update =
     (let conflict = (\<lambda>r. state_user_id r = uid \<and> keep_note_id r = nid);
          rows = (if \<exists>r \<in> set (sync_state db). conflict r
                  then map (\<lambda>r. if conflict r
                                  then r\<lparr>notion_page_id := page, keep_modified_at := modified,
                                         last_synced_at := now_update\<rparr>
                                  else r) (sync_state db)
                  else sync_state db @
                         [\<lparr>state_user_id = uid, keep_note_id = nid, notion_page_id = page,
                           last_synced_at = now_insert, keep_modified_at = modified\<rparr>]);
          db' = db\<lparr>sync_state := rows\<rparr>
      in (get_sync_record db' uid nid, db'))"


subsection \<open>Credentials\<close>


record credentials_dict =
  cd_user_id :: string
  cd_google_oauth_token :: string
  cd_notion_api_token :: string
  cd_notion_database_id :: string
  cd_updated_at :: datetime

definition get_credentials ::
  "(string \<Rightarrow> exn + string) \<Rightarrow> store \<Rightarrow> string \<Rightarrow> exn + credentials_dict option" where
  "get_credentials decrypt db uid =
     (case find (\<lambda>c. cred_user_id c = uid) (credentials db) of
        None \<Rightarrow> Inr None
      | Some c \<Rightarrow>
          (case decrypt (google_oauth_token c) of
             Inl e \<Rightarrow> Inl e
           | Inr g \<Rightarrow>
               (case decrypt (notion_api_token c) of
                  Inl e \<Rightarrow> Inl e
                | Inr n \<Rightarrow>
                    Inr (Some \<lparr>cd_user_id = cred_user_id c, cd_google_oauth_token = g,
                               cd_notion_api_token = n,
                               cd_notion_database_id = notion_database_id c,
                               cd_updated_at = updated_at c\<rparr>))))"


subsection \<open>Sync jobs\<close>

definition get_sync_job :: "store \<Rightarrow> uuid \<Rightarrow> SyncJob option" where
  "get_sync_job db jid = find (\<lambda>j. job_id j = jid) (sync_jobs db)"

text \<open>
  \<open>session.add\<close> of a new object followed by \<open>commit\<close> is a plain INSERT: a row with
  the same primary key makes the commit raise IntegrityError and nothing is written.
  The counters take the column default 0, \<open>created_at\<close> the server default.
\<close>

definition create_sync_job ::
  "store \<Rightarrow> uuid \<Rightarrow> string \<Rightarrow> bool \<Rightarrow> datetime \<Rightarrow> exn + SyncJob \<times> store" where
  "create_sync_job db jid uid full now =
     (let sync_job = \<lparr>job_id = jid, user_id = uid, status = ''queued'', full_sync = full,
                      total_notes = 0, processed_notes = 0, failed_notes = 0,
                      error_message = None, created_at = now, completed_at = None\<rparr>
      in if \<exists>j \<in> set (sync_jobs db). job_id j = jid
         then Inl (IntegrityError ''duplicate key value violates unique constraint'')
         else Inr (sync_job, db\<lparr>sync_jobs := sync_jobs db @ [sync_job]\<rparr>))"

definition set_fields ::
  "string option \<Rightarrow> int option \<Rightarrow> int option \<Rightarrow> int option \<Rightarrow> string option
     \<Rightarrow> datetime option \<Rightarrow> SyncJob \<Rightarrow> SyncJob" where
  "set_fields st tot proc fl err fin j =
     j\<lparr>status := (case st of None \<Rightarrow> status j | Some v \<Rightarrow> v),
       total_notes := (case tot of None \<Rightarrow> total_notes j | Some v \<Rightarrow> v),
       processed_notes := (case proc of None \<Rightarrow> processed_notes j | Some v \<Rightarrow> v),
       failed_notes := (case fl of None \<Rightarrow> failed_notes j | Some v \<Rightarrow> v),
       error_message := (case err of None \<Rightarrow> error_message j | Some v \<Rightarrow> Some v),
       completed_at := (case fin of None \<Rightarrow> completed_at j | Some v \<Rightarrow> Some v)\<rparr>"

definition update_row :: "uuid \<Rightarrow> (SyncJob \<Rightarrow> SyncJob) \<Rightarrow> store \<Rightarrow> store" where
  "update_row jid f db =
     db\<lparr>sync_jobs := map (\<lambda>j. if job_id j = jid then f j else j) (sync_jobs db)\<rparr>"

definition update_sync_job ::
  "store \<Rightarrow> uuid \<Rightarrow> string option \<Rightarrow> int option \<Rightarrow> int option \<Rightarrow> int option
     \<Rightarrow> string option \<Rightarrow> datetime option \<Rightarrow> SyncJob option \<times> store" where
  "update_sync_job db jid st tot proc fl err fin =
     (case get_sync_job db jid of
        None \<Rightarrow> (None, db)
      | Some sync_job \<Rightarrow>
          (Some (set_fields st tot proc fl err fin sync_job),
           update_row jid (set_fields st tot proc fl err fin) db))"

definition increment_sync_job_progress ::
  "store \<Rightarrow> uuid \<Rightarrow> int \<Rightarrow> int \<Rightarrow> SyncJob option \<times> store" where
  "increment_sync_job_progress db jid processed failed =
     (case get_sync_job db jid of
        None \<Rightarrow> (None, db)
      | Some sync_job \<Rightarrow>
          (let bump = (\<lambda>j. j\<lparr>processed_notes := processed_notes j + processed,
                              failed_notes := failed_notes j + failed\<rparr>)
           in (Some (bump sync_job), update_row jid bump db)))"

subsection \<open>Sync logs\<close>

text \<open>A log row references its job: without the job row the INSERT raises.\<close>

definition add_sync_log ::
  "store \<Rightarrow> uuid \<Rightarrow> string \<Rightarrow> string \<Rightarrow> string option \<Rightarrow> datetime \<Rightarrow> exn + SyncLog \<times> store" where
  "add_sync_log db jid lvl msg nid now =
     (let sync_log = \<lparr>log_job_id = jid, log_keep_note_id = nid, level = lvl, message = msg,
                      log_created_at = now\<rparr>
      in if \<exists>j \<in> set (sync_jobs db). job_id j = jid
         then Inr (sync_log, db\<lparr>sync_logs := sync_logs db @ [sync_log]\<rparr>)
         else Inl (IntegrityError ''insert on sync_logs violates foreign key constraint''))"

definition get_sync_logs :: "store \<Rightarrow> uuid \<Rightarrow> nat \<Rightarrow> SyncLog list" where
  "get_sync_logs db jid lim = take lim (filter (\<lambda>l. log_job_id l = jid) (sync_logs db))"

section \<open>Collaborators of the orchestrator\<close>

text \<open>
  A note is the JSON object the Keep Extractor returns. A field is \<open>None\<close> when the key
  is missing from the object; \<open>note['k']\<close> then raises KeyError.
\<close>

type_synonym image_dict = "(string \<times> string) list"

record keep_note =
  note_id :: "string option"
  note_title :: "string option"
  note_content :: "string option"
  note_created_at :: "string option"
  note_modified_at :: "string option"
  note_labels :: "string list option"
  note_images :: "image_dict list option"

record note_payload =
  title :: string
  content :: string
  payload_created_at :: string
  labels :: "string list"
  images :: "image_dict list"

record create_request =
  cr_api_token :: string
  cr_database_id :: string
  cr_note :: note_payload

record update_request =
  ur_api_token :: string
  ur_note :: note_payload

record notes_params =
  username :: string
  upload_images :: bool
  modified_since :: "string option"
  limit :: "int option"

text \<open>
  An HTTP response: \<open>json\<close> is \<open>None\<close> when the body is not JSON (\<open>.json()\<close> raises).
  The bodies are typed by endpoint; a field is \<open>None\<close> when the key is missing.
\<close>

record 'a response =
  status_code :: int
  body_text :: string
  json :: "'a option"

record auth_data =
  auth_status :: "string option"
  auth_error :: "string option"

record notes_data =
  notes_field :: "keep_note list option"

record page_result =
  page_id :: "string option"

datatype context_value = CStr string | CBool bool

text \<open>The calls the orchestrator makes to its collaborators, in the order made.\<close>

datatype call =
    KeepAuth string string
  | KeepNotes notes_params
  | NotionCreate create_request
  | NotionUpdate string update_request
  | Notify uuid string string "(string \<times> context_value) list"

text \<open>
  The environment of a run. The two HTTP services answer a request as a function of the
  request and of the number of calls made before it, so an answer may depend on the
  history; an \<open>Inl\<close> answer is a transport error raised by the client. \<open>utcnow\<close> gives
  the n-th clock reading. \<open>isoformat\<close>, \<open>fromisoformat\<close>, \<open>py_int\<close> and \<open>UUID\<close> are
  Python's \<open>datetime.isoformat\<close>, \<open>datetime.fromisoformat\<close>, \<open>int\<close> and \<open>uuid.UUID\<close>
  (\<open>None\<close>: ValueError).
\<close>

record env =
  keep_post :: "nat \<Rightarrow> string \<Rightarrow> string \<Rightarrow> exn + auth_data response"
  keep_get :: "nat \<Rightarrow> notes_params \<Rightarrow> exn + notes_data response"
  notion_post :: "nat \<Rightarrow> create_request \<Rightarrow> exn + page_result response"
  notion_patch :: "nat \<Rightarrow> string \<Rightarrow> update_request \<Rightarrow> exn + page_result response"
  utcnow :: "nat \<Rightarrow> datetime"
  isoformat :: "datetime \<Rightarrow> string"
  fromisoformat :: "string \<Rightarrow> datetime option"
  decrypt :: "string \<Rightarrow> exn + string"
  SYNC_NOTE_LIMIT :: "string option"
  py_int :: "string \<Rightarrow> int option"
  UUID :: "string \<Rightarrow> uuid option"

record world =
  db :: store
  calls :: "call list"
  clock :: nat

section \<open>Effects\<close>

text \<open>
  A computation takes the world and returns a value or the exception it raised,
  together with the world it left behind.
\<close>

type_synonym 'a io = "world \<Rightarrow> (exn + 'a) \<times> world"

definition return :: "'a \<Rightarrow> 'a io" where
  "return x w = (Inr x, w)"

definition raise :: "exn \<Rightarrow> 'a io" where
  "raise e w = (Inl e, w)"

definition bindE :: "'a io \<Rightarrow> ('a \<Rightarrow> 'b io) \<Rightarrow> 'b io" where
  "bindE m f w = (case m w of (Inl e, w') \<Rightarrow> (Inl e, w') | (Inr x, w') \<Rightarrow> f x w')"

definition try_except :: "'a io \<Rightarrow> (exn \<Rightarrow> 'a io) \<Rightarrow> 'a io" where
  "try_except m h w = (case m w of (Inl e, w') \<Rightarrow> h e w' | (Inr x, w') \<Rightarrow> (Inr x, w'))"

definition now :: "env \<Rightarrow> datetime io" where
  "now env w = (Inr (utcnow env (clock w)), w\<lparr>clock := Suc (clock w)\<rparr>)"

definition query :: "(store \<Rightarrow> 'a) \<Rightarrow> 'a io" where
  "query f w = (Inr (f (db w)), w)"

definition command :: "(store \<Rightarrow> 'a \<times> store) \<Rightarrow> 'a io" where
  "command f w = (Inr (fst (f (db w))), w\<lparr>db := snd (f (db w))\<rparr>)"

definition command_raising :: "(store \<Rightarrow> exn + 'a \<times> store) \<Rightarrow> 'a io" where
  "command_raising f w =
     (case f (db w) of Inl e \<Rightarrow> (Inl e, w) | Inr (x, d) \<Rightarrow> (Inr x, w\<lparr>db := d\<rparr>))"

definition lift :: "exn + 'a \<Rightarrow> 'a io" where
  "lift r w = (r, w)"

definition require :: "'a option \<Rightarrow> string \<Rightarrow> 'a io" where
  "require v k = (case v of None \<Rightarrow> raise (KeyError k) | Some x \<Rightarrow> return x)"

definition json_of :: "'a response \<Rightarrow> 'a io" where
  "json_of r = (case json r of None \<Rightarrow> raise (JSONDecodeError ''Expecting value'')
                | Some v \<Rightarrow> return v)"

text \<open>The store operations as effects; server defaults and \<open>utcnow()\<close> read the clock.\<close>

definition db_create_sync_job :: "env \<Rightarrow> uuid \<Rightarrow> string \<Rightarrow> bool \<Rightarrow> SyncJob io" where
  "db_create_sync_job env jid uid full =
     bindE (now env) (\<lambda>t. command_raising (\<lambda>d. create_sync_job d jid uid full t))"

definition db_add_sync_log ::
  "env \<Rightarrow> uuid \<Rightarrow> string \<Rightarrow> string \<Rightarrow> string option \<Rightarrow> SyncLog io" where
  "db_add_sync_log env jid lvl msg nid =
     bindE (now env) (\<lambda>t. command_raising (\<lambda>d. add_sync_log d jid lvl msg nid t))"

definition db_get_credentials :: "env \<Rightarrow> string \<Rightarrow> credentials_dict option io" where
  "db_get_credentials env uid = bindE (query (\<lambda>d. get_credentials (decrypt env) d uid)) lift"

definition db_upsert_sync_state ::
  "env \<Rightarrow> string \<Rightarrow> string \<Rightarrow> string \<Rightarrow> datetime \<Rightarrow> SyncState option io" where
  "db_upsert_sync_state env uid nid page modified =
     bindE (now env) (\<lambda>t1. bindE (now env) (\<lambda>t2.
       command (\<lambda>d. upsert_sync_state d uid nid page modified t1 t2)))"

text \<open>The HTTP clients: a call is recorded, then answered by the environment.\<close>

definition keep_auth :: "env \<Rightarrow> string \<Rightarrow> string \<Rightarrow> auth_data response io" where
  "keep_auth env u t w =
     (keep_post env (length (calls w)) u t, w\<lparr>calls := calls w @ [KeepAuth u t]\<rparr>)"

definition keep_notes :: "env \<Rightarrow> notes_params \<Rightarrow> notes_data response io" where
  "keep_notes env ps w =
     (keep_get env (length (calls w)) ps, w\<lparr>calls := calls w @ [KeepNotes ps]\<rparr>)"

definition notion_create :: "env \<Rightarrow> create_request \<Rightarrow> page_result response io" where
  "notion_create env rq w =
     (notion_post env (length (calls w)) rq, w\<lparr>calls := calls w @ [NotionCreate rq]\<rparr>)"

definition notion_update :: "env \<Rightarrow> string \<Rightarrow> update_request \<Rightarrow> page_result response io" where
  "notion_update env pid rq w =
     (notion_patch env (length (calls w)) pid rq, w\<lparr>calls := calls w @ [NotionUpdate pid rq]\<rparr>)"

text \<open>
  \<open>NotificationService.send_critical_error_notification\<close>: the orchestrator's call is
  recorded. The service swallows its own delivery failures, so the call never raises.
\<close>

definition send_critical_error_notification ::
  "uuid \<Rightarrow> string \<Rightarrow> string \<Rightarrow> (string \<times> context_value) list \<Rightarrow> unit io" where
  "send_critical_error_notification jid uid msg ctx w =
     (Inr (), w\<lparr>calls := calls w @ [Notify jid uid msg ctx]\<rparr>)"

section \<open>The orchestrator (services/sync\_service/orchestrator.py)\<close>

subsection \<open>Strings\<close>

fun str_nat :: "nat \<Rightarrow> string" where
  "str_nat n = (if n < 10 then [char_of (48 + n)]
                else str_nat (n div 10) @ [char_of (48 + n mod 10)])"

declare str_nat.simps [simp del]

definition str_int :: "int \<Rightarrow> string" where
  "str_int i = (if i < 0 then CHR ''-'' # str_nat (nat (- i)) else str_nat (nat i))"

definition str_bool :: "bool \<Rightarrow> string" where
  "str_bool b = (if b then ''True'' else ''False'')"

text \<open>\<open>s.replace('Z', '+00:00')\<close>\<close>

definition replace_Z :: "string \<Rightarrow> string" where
  "replace_Z s = concat (map (\<lambda>c. if c = CHR ''Z'' then ''+00:00'' else [c]) s)"

text \<open>\<open>s.strip()\<close> is non-empty: some character of \<open>s\<close> is not whitespace.\<close>

definition is_space :: "char \<Rightarrow> bool" where
  "is_space c = (c \<in> set [CHR '' '', CHR 0x09, CHR 0x0A, CHR 0x0B, CHR 0x0C, CHR 0x0D])"

definition strip_nonempty :: "string \<Rightarrow> bool" where
  "strip_nonempty s = (\<exists>c \<in> set s. \<not> is_space c)"

text \<open>\<open>max\<close> of a list; Python raises ValueError on the empty list.\<close>

fun py_max :: "datetime list \<Rightarrow> exn + datetime" where
  "py_max [] = Inl (ValueError ''max() arg is an empty sequence'')"
| "py_max (x # xs) = Inr (fold max xs x)"

subsection \<open>\<open>_fetch_notes_from_keep\<close> (lines 250--312)\<close>

definition fetch_params :: "env \<Rightarrow> string \<Rightarrow> string option \<Rightarrow> notes_params" where
  "fetch_params env uname since =
     \<lparr>username = uname, upload_images = True,
      modified_since = (case since of None \<Rightarrow> None
                        | Some s \<Rightarrow> if s = [] then None else Some s),
      limit = (case SYNC_NOTE_LIMIT env of None \<Rightarrow> None
               | Some l \<Rightarrow> if l \<noteq> [] \<and> strip_nonempty l then py_int env l else None)\<rparr>"

definition fetch_notes_from_keep ::
  "env \<Rightarrow> string \<Rightarrow> string \<Rightarrow> string option \<Rightarrow> keep_note list io" where
  "fetch_notes_from_keep env uname google_token since =
     bindE (keep_auth env uname google_token) (\<lambda>auth_response.
       if status_code auth_response \<noteq> 200
       then raise (PyException (''Keep authentication failed: '' @ body_text auth_response))
       else bindE (json_of auth_response) (\<lambda>auth.
         if auth_status auth \<noteq> Some ''authenticated''
         then raise (PyException (''Keep authentication failed: '' @
                       (case auth_error auth of None \<Rightarrow> ''Unknown error'' | Some e \<Rightarrow> e)))
         else bindE (keep_notes env (fetch_params env uname since)) (\<lambda>notes_response.
           if status_code notes_response \<noteq> 200
           then raise (PyException (''Failed to fetch notes from Keep: '' @
                         body_text notes_response))
           else bindE (json_of notes_response) (\<lambda>data.
             return (case notes_field data of None \<Rightarrow> [] | Some ns \<Rightarrow> ns)))))"

subsection \<open>\<open>_process_note\<close> (lines 314--430)\<close>

datatype note_result =
    NoteSuccess string string
  | NoteFailed string string

fun is_success :: "note_result \<Rightarrow> bool" where
  "is_success (NoteSuccess _ _) = True"
| "is_success (NoteFailed _ _) = False"

text \<open>The \<open>"note"\<close> object of the request body; the keys are read in this order.\<close>

definition note_body :: "keep_note \<Rightarrow> note_payload io" where
  "note_body n =
     bindE (require (note_title n) ''title'') (\<lambda>t.
     bindE (require (note_content n) ''content'') (\<lambda>c.
     bindE (require (note_created_at n) ''created_at'') (\<lambda>cr.
     bindE (require (note_labels n) ''labels'') (\<lambda>l.
     bindE (require (note_images n) ''images'') (\<lambda>i.
       return \<lparr>title = t, content = c, payload_created_at = cr, labels = l, images = i\<rparr>)))))"

definition write_page ::
  "env \<Rightarrow> SyncState option \<Rightarrow> keep_note \<Rightarrow> string \<Rightarrow> string \<Rightarrow> string io" where
  "write_page env existing n notion_token notion_dbid =
     (case existing of
        Some ex \<Rightarrow>
          bindE (note_body n) (\<lambda>body.
          bindE (notion_update env (notion_page_id ex)
                   \<lparr>ur_api_token = notion_token, ur_note = body\<rparr>) (\<lambda>response.
            if status_code response \<noteq> 200
            then raise (PyException (''Failed to update Notion page: '' @ body_text response))
            else bindE (json_of response) (\<lambda>result. require (page_id result) ''page_id'')))
      | None \<Rightarrow>
          bindE (note_body n) (\<lambda>body.
          bindE (notion_create env
                   \<lparr>cr_api_token = notion_token, cr_database_id = notion_dbid,
                    cr_note = body\<rparr>) (\<lambda>response.
            if status_code response \<noteq> 201
            then raise (PyException (''Failed to create Notion page: '' @ body_text response))
            else bindE (json_of response) (\<lambda>result. require (page_id result) ''page_id''))))"

definition parse_modified_at :: "env \<Rightarrow> keep_note \<Rightarrow> datetime io" where
  "parse_modified_at env n =
     bindE (require (note_modified_at n) ''modified_at'') (\<lambda>m.
       case fromisoformat env (replace_Z m) of
         None \<Rightarrow> raise (ValueError (''Invalid isoformat string: '' @ [CHR 0x27] @ replace_Z m @
                               [CHR 0x27]))
       | Some t \<Rightarrow> return t)"

definition process_note ::
  "env \<Rightarrow> uuid \<Rightarrow> string \<Rightarrow> keep_note \<Rightarrow> string \<Rightarrow> string \<Rightarrow> note_result io" where
  "process_note env jid uid n notion_token notion_dbid =
     bindE (require (note_id n) ''id'') (\<lambda>nid.
       try_except
         (bindE (query (\<lambda>d. get_sync_record d uid nid)) (\<lambda>existing.
          bindE (write_page env existing n notion_token notion_dbid) (\<lambda>page.
          bindE (parse_modified_at env n) (\<lambda>modified_at.
          bindE (db_upsert_sync_state env uid nid page modified_at) (\<lambda>_.
          bindE (db_add_sync_log env jid ''INFO''
                   (''Successfully synced note '' @ nid @ '' to Notion page '' @ page)
                   (Some nid)) (\<lambda>_.
            return (NoteSuccess nid page)))))))
         (\<lambda>e.
          bindE (db_add_sync_log env jid ''ERROR''
                   (''Failed to process note '' @ nid @ '': '' @ str_exn e) (Some nid)) (\<lambda>_.
            return (NoteFailed nid (str_exn e)))))"

subsection \<open>\<open>execute_sync\<close> (lines 41--248)\<close>

record sync_result =
  res_job_id :: uuid
  res_status :: string
  res_summary :: "(int \<times> int \<times> int) option"
  res_error :: "string option"

text \<open>
  One iteration of the loop of lines 156--196, on the local counters
  \<open>(processed_count, failed_count, results)\<close>. In the model only \<open>_process_note\<close> can
  raise inside the \<open>try\<close>, so the handler sees the counters as they were before it.
  The call of line 196 passes \<open>failed=1\<close> only: \<open>processed\<close> takes its default, 1.
\<close>

definition note_id_or_unknown :: "keep_note \<Rightarrow> string" where
  "note_id_or_unknown n = (case note_id n of None \<Rightarrow> ''unknown'' | Some i \<Rightarrow> i)"

definition loop_body ::
  "env \<Rightarrow> uuid \<Rightarrow> string \<Rightarrow> string \<Rightarrow> string \<Rightarrow> keep_note
     \<Rightarrow> int \<times> int \<times> note_result list \<Rightarrow> (int \<times> int \<times> note_result list) io" where
  "loop_body env jid uid notion_token notion_dbid n acc =
     (case acc of (processed_count, failed_count, results) \<Rightarrow>
        try_except
          (bindE (process_note env jid uid n notion_token notion_dbid) (\<lambda>result.
           bindE (command (\<lambda>d. increment_sync_job_progress d jid
                                  (if is_success result then 1 else 0)
                                  (if is_success result then 0 else 1))) (\<lambda>_.
             return (if is_success result then processed_count + 1 else processed_count,
                     if is_success result then failed_count else failed_count + 1,
                     results @ [result]))))
          (\<lambda>e.
           bindE (db_add_sync_log env jid ''ERROR''
                    (''Failed to process note '' @ note_id_or_unknown n @ '': '' @ str_exn e)
                    (note_id n)) (\<lambda>_.
           bindE (command (\<lambda>d. increment_sync_job_progress d jid 1 1)) (\<lambda>_.
             return (processed_count, failed_count + 1,
                     results @ [NoteFailed (note_id_or_unknown n) (str_exn e)])))))"

fun process_notes ::
  "env \<Rightarrow> uuid \<Rightarrow> string \<Rightarrow> string \<Rightarrow> string \<Rightarrow> keep_note list
     \<Rightarrow> int \<times> int \<times> note_result list \<Rightarrow> (int \<times> int \<times> note_result list) io" where
  "process_notes env jid uid notion_token notion_dbid [] acc = return acc"
| "process_notes env jid uid notion_token notion_dbid (n # rest) acc =
     bindE (loop_body env jid uid notion_token notion_dbid n acc)
       (process_notes env jid uid notion_token notion_dbid rest)"

text \<open>The three terminal status writes and the write of \<open>running\<close>, as the source makes them.\<close>

definition mark_running :: "uuid \<Rightarrow> SyncJob option io" where
  "mark_running jid =
     command (\<lambda>d. update_sync_job d jid (Some ''running'') None None None None None)"

definition mark_failed :: "env \<Rightarrow> uuid \<Rightarrow> string \<Rightarrow> SyncJob option io" where
  "mark_failed env jid error_msg =
     bindE (now env) (\<lambda>t.
       command (\<lambda>d. update_sync_job d jid (Some ''failed'') None None None
                       (Some error_msg) (Some t)))"

definition mark_completed :: "env \<Rightarrow> uuid \<Rightarrow> SyncJob option io" where
  "mark_completed env jid =
     bindE (now env) (\<lambda>t.
       command (\<lambda>d. update_sync_job d jid (Some ''completed'') None None None None (Some t)))"

text \<open>Lines 87--110: no credentials.\<close>

definition no_credentials :: "env \<Rightarrow> uuid \<Rightarrow> string \<Rightarrow> sync_result io" where
  "no_credentials env jid uid =
     (let error_msg = ''No credentials found for user '' @ uid in
      bindE (mark_failed env jid error_msg) (\<lambda>_.
      bindE (db_add_sync_log env jid ''ERROR'' error_msg None) (\<lambda>_.
      bindE (send_critical_error_notification jid uid error_msg
               [(''stage'', CStr ''credential_loading'')]) (\<lambda>_.
        return \<lparr>res_job_id = jid, res_status = ''failed'', res_summary = None,
                res_error = Some error_msg\<rparr>))))"

text \<open>Lines 114--124: the lower bound of the fetch.\<close>

definition determine_modified_since :: "env \<Rightarrow> string \<Rightarrow> bool \<Rightarrow> string option io" where
  "determine_modified_since env uid full =
     (if \<not> full
      then bindE (query (\<lambda>d. get_sync_state_by_user d uid)) (\<lambda>rows.
             if rows \<noteq> []
             then (let last_sync_times = map last_synced_at rows in
                   if last_sync_times \<noteq> []
                   then bindE (lift (py_max last_sync_times)) (\<lambda>t.
                          return (Some (isoformat env t)))
                   else return None)
             else return None)
      else return None)"

text \<open>Lines 140--221: everything after the fetch.\<close>

definition after_fetch ::
  "env \<Rightarrow> uuid \<Rightarrow> string \<Rightarrow> credentials_dict \<Rightarrow> keep_note list \<Rightarrow> sync_result io" where
  "after_fetch env jid uid creds ns =
     (let total = int (length ns) in
      bindE (command (\<lambda>d. update_sync_job d jid None (Some total) None None None None)) (\<lambda>_.
      bindE (db_add_sync_log env jid ''INFO''
               (''Fetched '' @ str_int total @ '' notes from Keep'') None) (\<lambda>_.
      bindE (process_notes env jid uid (cd_notion_api_token creds)
               (cd_notion_database_id creds) ns (0, 0, [])) (\<lambda>(processed_count, failed_count, _).
      bindE (mark_completed env jid) (\<lambda>_.
      bindE (db_add_sync_log env jid ''INFO''
               (''Sync completed: '' @ str_int processed_count @ '' processed, '' @
                str_int failed_count @ '' failed'') None) (\<lambda>_.
        return \<lparr>res_job_id = jid, res_status = ''completed'',
                res_summary = Some (total, processed_count, failed_count),
                res_error = None\<rparr>))))))"

text \<open>Lines 112--138: the window, its log line and the fetch.\<close>

definition fetch_phase ::
  "env \<Rightarrow> uuid \<Rightarrow> string \<Rightarrow> bool \<Rightarrow> credentials_dict \<Rightarrow> keep_note list io" where
  "fetch_phase env jid uid full creds =
     bindE (determine_modified_since env uid full) (\<lambda>since.
     bindE (db_add_sync_log env jid ''INFO''
              (''Fetching notes from Keep (modified_since='' @
               (case since of None \<Rightarrow> ''None'' | Some s \<Rightarrow> s) @ '')'') None) (\<lambda>_.
       fetch_notes_from_keep env uid (cd_google_oauth_token creds) since))"

text \<open>Lines 83--221: the body of the \<open>try\<close>.\<close>

definition sync_steps :: "env \<Rightarrow> uuid \<Rightarrow> string \<Rightarrow> bool \<Rightarrow> sync_result io" where
  "sync_steps env jid uid full =
     bindE (db_get_credentials env uid) (\<lambda>credentials.
       case credentials of
         None \<Rightarrow> no_credentials env jid uid
       | Some creds \<Rightarrow>
           bindE (fetch_phase env jid uid full creds) (\<lambda>ns.
             after_fetch env jid uid creds ns))"

text \<open>Lines 223--248: the handler of the \<open>try\<close>.\<close>

definition on_exception :: "env \<Rightarrow> uuid \<Rightarrow> string \<Rightarrow> bool \<Rightarrow> exn \<Rightarrow> sync_result io" where
  "on_exception env jid uid full e =
     (let error_msg = str_exn e in
      bindE (mark_failed env jid error_msg) (\<lambda>_.
      bindE (db_add_sync_log env jid ''ERROR'' (''Sync failed: '' @ error_msg) None) (\<lambda>_.
      bindE (send_critical_error_notification jid uid error_msg
               [(''stage'', CStr ''sync_execution''), (''full_sync'', CBool full)]) (\<lambda>_.
        return \<lparr>res_job_id = jid, res_status = ''failed'', res_summary = None,
                res_error = Some error_msg\<rparr>))))"

text \<open>Lines 70--80 run before the \<open>try\<close>: an exception there leaves \<open>execute_sync\<close>.\<close>

definition start_job :: "env \<Rightarrow> uuid \<Rightarrow> string \<Rightarrow> bool \<Rightarrow> SyncLog io" where
  "start_job env jid uid full =
     bindE (db_create_sync_job env jid uid full) (\<lambda>_.
     bindE (mark_running jid) (\<lambda>_.
       db_add_sync_log env jid ''INFO'' (''Starting sync for user '' @ uid) None))"

definition execute_sync :: "env \<Rightarrow> uuid \<Rightarrow> string \<Rightarrow> bool \<Rightarrow> sync_result io" where
  "execute_sync env jid uid full =
     bindE (start_job env jid uid full) (\<lambda>_.
       try_except (sync_steps env jid uid full) (on_exception env jid uid full))"

section \<open>The abort endpoint (services/sync\_service/main.py, lines 321--385)\<close>

record AbortSyncResponse =
  abort_job_id :: string
  abort_status :: string
  abort_message :: string

definition abort_sync :: "env \<Rightarrow> string \<Rightarrow> AbortSyncResponse io" where
  "abort_sync env job_id_str =
     (case UUID env job_id_str of
        None \<Rightarrow> raise (HTTPException 400 ''Invalid job_id format'')
      | Some job_uuid \<Rightarrow>
          bindE (query (\<lambda>d. get_sync_job d job_uuid)) (\<lambda>sync_job.
            case sync_job of
              None \<Rightarrow> raise (HTTPException 404 (''Sync job '' @ job_id_str @ '' not found''))
            | Some j \<Rightarrow>
                if status j \<in> set [''completed'', ''failed'', ''cancelled'']
                then raise (HTTPException 400
                              (''Cannot abort job with status '' @ [CHR 0x27] @ status j @
                               [CHR 0x27]))
                else bindE (now env) (\<lambda>t.
                     bindE (command (\<lambda>d. update_sync_job d job_uuid (Some ''cancelled'') None
                                            None None (Some ''Job cancelled by user'')
                                            (Some t))) (\<lambda>_.
                     bindE (db_add_sync_log env job_uuid ''WARNING''
                              ''Sync job cancelled by user'' None) (\<lambda>_.
                       return \<lparr>abort_job_id = job_id_str, abort_status = ''cancelled'',
                               abort_message = ''Sync job has been cancelled''\<rparr>)))))"

section \<open>Notions used in the statements\<close>

definition has_job :: "store \<Rightarrow> uuid \<Rightarrow> bool" where
  "has_job d jid = (\<exists>j \<in> set (sync_jobs d). job_id j = jid)"

definition state_key :: "SyncState \<Rightarrow> string \<times> string" where
  "state_key r = (state_user_id r, keep_note_id r)"






text \<open>Concrete stores, notes and an environment, for evaluating the model.\<close>

definition alice_store :: store where
  "alice_store =
     \<lparr>sync_jobs = [], sync_state = [],
      credentials = [\<lparr>cred_user_id = ''alice'', google_oauth_token = ''g'',
                      notion_api_token = ''n'', notion_database_id = ''d'', updated_at = 0\<rparr>],
      sync_logs = []\<rparr>"

definition queued_job :: SyncJob where
  "queued_job =
     \<lparr>job_id = 1, user_id = ''alice'', status = ''queued'', full_sync = True,
      total_notes = 0, processed_notes = 0, failed_notes = 0, error_message = None,
      created_at = 0, completed_at = None\<rparr>"

definition queued_store :: store where
  "queued_store = alice_store\<lparr>sync_jobs := [queued_job]\<rparr>"

definition demo_note :: "string \<Rightarrow> string \<Rightarrow> keep_note" where
  "demo_note i m =
     \<lparr>note_id = Some i, note_title = Some i, note_content = Some '''',
      note_created_at = Some ''2024-01-01T10:00:00Z'', note_modified_at = Some m,
      note_labels = Some [], note_images = Some []\<rparr>"

text \<open>
  \<open>demo_env ns\<close>: the Keep Extractor authenticates and returns \<open>ns\<close>; the Notion Writer
  fails for the note titled \<open>bad\<close> and succeeds for every other note; the only string
  that is not an ISO timestamp is \<open>garbage\<close>.
\<close>

definition demo_env :: "keep_note list option \<Rightarrow> env" where
  "demo_env ns =
     \<lparr>keep_post = (\<lambda>n u t. Inr \<lparr>status_code = 200, body_text = '''',
                       json = Some \<lparr>auth_status = Some ''authenticated'', auth_error = None\<rparr>\<rparr>),
      keep_get = (\<lambda>n ps. Inr \<lparr>status_code = 200, body_text = '''',
                       json = Some \<lparr>notes_field = ns\<rparr>\<rparr>),
      notion_post = (\<lambda>n rq. if title (cr_note rq) = ''bad''
                       then Inr \<lparr>status_code = 500, body_text = ''boom'', json = None\<rparr>
                       else Inr \<lparr>status_code = 201, body_text = '''',
                              json = Some \<lparr>page_id = Some (''page-'' @ title (cr_note rq))\<rparr>\<rparr>),
      notion_patch = (\<lambda>n pid rq. if title (ur_note rq) = ''bad''
                       then Inl (TransportError ''timeout'')
                       else Inr \<lparr>status_code = 200, body_text = '''',
                              json = Some \<lparr>page_id = Some pid\<rparr>\<rparr>),
      utcnow = (\<lambda>n. int n),
      isoformat = (\<lambda>t. CHR ''T'' # str_int t),
      fromisoformat = (\<lambda>s. if s = ''garbage'' then None else Some 7),
      decrypt = (\<lambda>s. Inr s),
      SYNC_NOTE_LIMIT = None,
      py_int = (\<lambda>s. None),
      UUID = (\<lambda>s. if s = ''job-1'' then Some 1 else None)\<rparr>"

definition world_of :: "store \<Rightarrow> world" where
  "world_of d = \<lparr>db = d, calls = [], clock = 0\<rparr>"

text \<open>
  A note is well formed when it carries every key of a note record and its
  \<open>modified_at\<close> is an ISO timestamp.
\<close>

definition payload_of :: "keep_note \<Rightarrow> note_payload option" where
  "payload_of n =
     (case (note_title n, note_content n, note_created_at n, note_labels n, note_images n) of
        (Some t, Some c, Some cr, Some l, Some i) \<Rightarrow>
          Some \<lparr>title = t, content = c, payload_created_at = cr, labels = l, images = i\<rparr>
      | _ \<Rightarrow> None)"

definition well_formed_note :: "env \<Rightarrow> keep_note \<Rightarrow> bool" where
  "well_formed_note env n =
     (note_id n \<noteq> None \<and> payload_of n \<noteq> None \<and>
      (case note_modified_at n of
         None \<Rightarrow> False
       | Some m \<Rightarrow> fromisoformat env (replace_Z m) \<noteq> None))"

text \<open>
  The answer to a sink call: it succeeds when it carries the expected status and a
  page id; it fails when the client raises or the status is another one.
\<close>

definition sink_succeeds :: "int \<Rightarrow> exn + page_result response \<Rightarrow> bool" where
  "sink_succeeds code r =
     (case r of
        Inl e \<Rightarrow> False
      | Inr resp \<Rightarrow>
          status_code resp = code \<and>
          (case json resp of None \<Rightarrow> False | Some res \<Rightarrow> page_id res \<noteq> None))"

definition sink_fails :: "int \<Rightarrow> exn + page_result response \<Rightarrow> bool" where
  "sink_fails code r = (case r of Inl e \<Rightarrow> True | Inr resp \<Rightarrow> status_code resp \<noteq> code)"

text \<open>
  \<open>sink_answers env tok dbid n P\<close>: whenever the Notion Writer is asked to create or to
  update the page of note \<open>n\<close>, at any point of the history, its answer satisfies \<open>P\<close>.
\<close>

definition sink_answers ::
  "env \<Rightarrow> string \<Rightarrow> string \<Rightarrow> keep_note \<Rightarrow> (int \<Rightarrow> exn + page_result response \<Rightarrow> bool)
     \<Rightarrow> bool" where
  "sink_answers env tok dbid n P =
     (\<forall>b. payload_of n = Some b \<longrightarrow>
        (\<forall>k. P 201 (notion_post env k
                       \<lparr>cr_api_token = tok, cr_database_id = dbid, cr_note = b\<rparr>)) \<and>
        (\<forall>k pid. P 200 (notion_patch env k pid \<lparr>ur_api_token = tok, ur_note = b\<rparr>)))"

fun is_sink_call :: "call \<Rightarrow> bool" where
  "is_sink_call (NotionCreate rq) = True"
| "is_sink_call (NotionUpdate pid rq) = True"
| "is_sink_call c = False"

text \<open>The notes of \<open>ns\<close> outside \<open>F\<close>, by id.\<close>

definition succeeded_ids :: "keep_note set \<Rightarrow> keep_note list \<Rightarrow> string set" where
  "succeeded_ids F ns = {k. \<exists>x \<in> set ns. x \<notin> F \<and> note_id x = Some k}"

text \<open>
  The Keep Extractor authenticates the user at call \<open>k\<close> and answers the notes request
  at call \<open>k + 1\<close> with status 200 and a JSON object whose \<open>notes\<close> entry is \<open>field\<close>
  (\<open>None\<close>: the object has no such key).
\<close>

definition auth_accepted :: "exn + auth_data response \<Rightarrow> bool" where
  "auth_accepted r =
     (case r of
        Inl e \<Rightarrow> False
      | Inr ar \<Rightarrow>
          status_code ar = 200 \<and>
          (case json ar of
             None \<Rightarrow> False
           | Some ad \<Rightarrow> auth_status ad = Some ''authenticated''))"

definition keep_answers ::
  "env \<Rightarrow> nat \<Rightarrow> string \<Rightarrow> string \<Rightarrow> keep_note list option \<Rightarrow> bool" where
  "keep_answers env k uid tok field =
     (auth_accepted (keep_post env k uid tok) \<and>
      (\<forall>ps. case keep_get env (Suc k) ps of
               Inl e \<Rightarrow> False
             | Inr nr \<Rightarrow> status_code nr = 200 \<and> json nr = Some \<lparr>notes_field = field\<rparr>))"

text \<open>The lower bound of the fetch, as lines 114--124 compute it from the store.\<close>

definition expected_since :: "env \<Rightarrow> store \<Rightarrow> string \<Rightarrow> bool \<Rightarrow> string option" where
  "expected_since env d uid full =
     (if full \<or> get_sync_state_by_user d uid = [] then None
      else Some (isoformat env (Max (set (map last_synced_at (get_sync_state_by_user d uid))))))"

text \<open>The effect of progress increments on a job row.\<close>

definition bump :: "int \<Rightarrow> int \<Rightarrow> SyncJob \<Rightarrow> SyncJob" where
  "bump p f j = j\<lparr>processed_notes := processed_notes j + p, failed_notes := failed_notes j + f\<rparr>"

definition alice_creds :: credentials_dict where
  "alice_creds =
     \<lparr>cd_user_id = ''alice'', cd_google_oauth_token = ''g'', cd_notion_api_token = ''n'',
      cd_notion_database_id = ''d'', cd_updated_at = 0\<rparr>"



definition idless_note :: keep_note where
  "idless_note = (demo_note ''a'' ''2024-01-01T10:00:00Z'')\<lparr>note_id := None\<rparr>"

text \<open>
  A run for alice on job 1 during which \<open>abort\<close> is served while the notes request is
  awaited: the worlds after lines 70--80, after the fetch, after the abort, and after
  the rest of \<open>execute_sync\<close> (lines 140--221).
\<close>

definition w_running :: world where
  "w_running = snd (start_job (demo_env (Some [])) 1 ''alice'' True (world_of alice_store))"

definition w_fetched :: world where
  "w_fetched = snd (fetch_phase (demo_env (Some [])) 1 ''alice'' True alice_creds w_running)"

definition w_aborted :: world where
  "w_aborted = snd (abort_sync (demo_env (Some [])) ''job-1'' w_fetched)"

definition w_finished :: world where
  "w_finished = snd (after_fetch (demo_env (Some [])) 1 ''alice'' alice_creds [] w_aborted)"

text \<open>
  \<open>adds P m\<close>: whatever the world, the computation \<open>m\<close> only appends calls to the
  record of calls, and every call it appends satisfies \<open>P\<close>.
\<close>

fun is_keep_call :: "call \<Rightarrow> bool" where
  "is_keep_call (KeepAuth u t) = True"
| "is_keep_call (KeepNotes ps) = True"
| "is_keep_call c = False"

definition adds :: "(call \<Rightarrow> bool) \<Rightarrow> 'a io \<Rightarrow> bool" where
  "adds P m = (\<forall>w. \<exists>new. calls (snd (m w)) = calls w @ new \<and> list_all P new)"

definition some_rows :: store where
  "some_rows =
     alice_store\<lparr>sync_state :=
       [\<lparr>state_user_id = ''alice'', keep_note_id = ''k1'', notion_page_id = ''p1'',
         last_synced_at = 40, keep_modified_at = 1\<rparr>,
        \<lparr>state_user_id = ''alice'', keep_note_id = ''k2'', notion_page_id = ''p2'',
         last_synced_at = 70, keep_modified_at = 2\<rparr>,
        \<lparr>state_user_id = ''bob'', keep_note_id = ''k3'', notion_page_id = ''p3'',
         last_synced_at = 90, keep_modified_at = 3\<rparr>]\<rparr>"

section \<open>Store operations: lemmas\<close>

lemma find_None_conv: "find P xs = None \<longleftrightarrow> \<not> (\<exists>x \<in> set xs. P x)"
  by (induction xs) auto

lemma get_sync_job_None: "get_sync_job d jid = None \<longleftrightarrow> \<not> has_job d jid"
  by (simp add: get_sync_job_def has_job_def find_None_conv)

lemma find_map_keep:
  assumes "\<And>x. P (f x) = P x"
  shows "find P (map (\<lambda>x. if P x then f x else x) xs) = map_option f (find P xs)"
  using assms by (induction xs) auto

lemma find_map_other:
  assumes "\<And>x. Q x \<Longrightarrow> \<not> P x" "\<And>x. Q x \<Longrightarrow> \<not> P (f x)"
  shows "find P (map (\<lambda>x. if Q x then f x else x) xs) = find P xs"
  using assms by (induction xs) auto

lemma get_sync_job_update_row:
  assumes "\<And>j. job_id (f j) = job_id j"
  shows "get_sync_job (update_row jid f d) k =
           (if k = jid then map_option f (get_sync_job d jid) else get_sync_job d k)"
proof (cases "k = jid")
  case True
  then show ?thesis
    using find_map_keep [of "\<lambda>j. job_id j = jid" f "sync_jobs d"] assms
    by (simp add: get_sync_job_def update_row_def)
next
  case False
  then show ?thesis
    using find_map_other [of "\<lambda>j. job_id j = jid" "\<lambda>j. job_id j = k" f "sync_jobs d"] assms
    by (simp add: get_sync_job_def update_row_def)
qed

lemma job_id_set_fields [simp]: "job_id (set_fields st tot proc fl err fin j) = job_id j"
  by (simp add: set_fields_def)

lemma sync_state_update_row [simp]: "sync_state (update_row jid f d) = sync_state d"
  by (simp add: update_row_def)

lemma sync_state_upsert:
  "sync_state (snd (upsert_sync_state d uid nid page m t1 t2)) =
     (if (uid, nid) \<in> state_key ` set (sync_state d)
      then map (\<lambda>r. if state_key r = (uid, nid)
                      then r\<lparr>notion_page_id := page, keep_modified_at := m, last_synced_at := t2\<rparr>
                      else r) (sync_state d)
      else sync_state d @
             [\<lparr>state_user_id = uid, keep_note_id = nid, notion_page_id = page,
               last_synced_at = t1, keep_modified_at = m\<rparr>])"
  by (auto simp: upsert_sync_state_def Let_def state_key_def image_iff)



lemma upsert_row_present:
  "\<exists>r \<in> set (sync_state (snd (upsert_sync_state d uid nid page m t1 t2))).
      state_key r = (uid, nid) \<and> notion_page_id r = page \<and> keep_modified_at r = m"
proof (cases "(uid, nid) \<in> state_key ` set (sync_state d)")
  case True
  then obtain x where x: "x \<in> set (sync_state d)" "state_key x = (uid, nid)"
    by auto
  let ?r = "x\<lparr>notion_page_id := page, keep_modified_at := m, last_synced_at := t2\<rparr>"
  let ?f = "\<lambda>r. if state_key r = (uid, nid)
                 then r\<lparr>notion_page_id := page, keep_modified_at := m, last_synced_at := t2\<rparr>
                 else r"
  have "?f x \<in> ?f ` set (sync_state d)"
    using x(1) by (rule imageI)
  moreover have "?f x = ?r"
    using x(2) by simp
  ultimately have "?r \<in> set (map ?f (sync_state d))"
    by (simp only: set_map)
  then have "?r \<in> set (sync_state (snd (upsert_sync_state d uid nid page m t1 t2)))"
    unfolding sync_state_upsert using True by (simp only: if_True)
  moreover have "state_key ?r = (uid, nid)"
    using x by (simp add: state_key_def)
  ultimately show ?thesis by (intro bexI [of _ ?r]) simp_all
next
  case False
  then show ?thesis
    unfolding sync_state_upsert by (simp add: state_key_def)
qed





section \<open>Effects: lemmas\<close>

lemma has_job_frame [simp]:
  "has_job (d\<lparr>sync_logs := l\<rparr>) k = has_job d k"
  "has_job (d\<lparr>sync_state := s\<rparr>) k = has_job d k"
  "has_job (d\<lparr>credentials := c\<rparr>) k = has_job d k"
  by (simp_all add: has_job_def)

lemma get_sync_job_frame [simp]:
  "get_sync_job (d\<lparr>sync_logs := l\<rparr>) k = get_sync_job d k"
  "get_sync_job (d\<lparr>sync_state := s\<rparr>) k = get_sync_job d k"
  "get_sync_job (d\<lparr>credentials := c\<rparr>) k = get_sync_job d k"
  by (simp_all add: get_sync_job_def)

lemma get_sync_record_frame [simp]:
  "get_sync_record (d\<lparr>sync_logs := l\<rparr>) u k = get_sync_record d u k"
  "get_sync_record (d\<lparr>sync_jobs := js\<rparr>) u k = get_sync_record d u k"
  "get_sync_record (d\<lparr>credentials := c\<rparr>) u k = get_sync_record d u k"
  "get_sync_record (update_row jid f d) u k = get_sync_record d u k"
  by (simp_all add: get_sync_record_def update_row_def)

lemma update_row_frame [simp]:
  "sync_logs (update_row jid f d) = sync_logs d"
  "credentials (update_row jid f d) = credentials d"
  by (simp_all add: update_row_def)

lemma update_row_logs_commute:
  "update_row jid f (d\<lparr>sync_logs := l\<rparr>) = (update_row jid f d)\<lparr>sync_logs := l\<rparr>"
  by (simp add: update_row_def)

lemma has_job_update_row [simp]:
  assumes "\<And>j. job_id (f j) = job_id j"
  shows "has_job (update_row jid f d) k = has_job d k"
  using assms by (auto simp: has_job_def update_row_def image_iff)

lemma has_job_get: "get_sync_job d jid = Some j \<Longrightarrow> has_job d jid"
  using get_sync_job_None [of d jid] by auto

lemma update_row_absent: "\<not> has_job d jid \<Longrightarrow> update_row jid f d = d"
  by (simp add: update_row_def has_job_def map_idI)

lemma snd_update_sync_job:
  "snd (update_sync_job d jid st tot proc fl err fin) =
     update_row jid (set_fields st tot proc fl err fin) d"
proof (cases "get_sync_job d jid")
  case None
  then have "\<not> has_job d jid" by (simp add: get_sync_job_None)
  with None show ?thesis by (simp add: update_sync_job_def update_row_absent)
next
  case (Some j)
  then show ?thesis by (simp add: update_sync_job_def)
qed

lemma snd_increment_sync_job_progress:
  "snd (increment_sync_job_progress d jid p f) =
     update_row jid (\<lambda>j. j\<lparr>processed_notes := processed_notes j + p,
                            failed_notes := failed_notes j + f\<rparr>) d"
proof (cases "get_sync_job d jid")
  case None
  then have "\<not> has_job d jid" by (simp add: get_sync_job_None)
  with None show ?thesis by (simp add: increment_sync_job_progress_def update_row_absent)
next
  case (Some j)
  then show ?thesis by (simp add: increment_sync_job_progress_def)
qed

lemma find_append:
  "find P (xs @ ys) = (case find P xs of None \<Rightarrow> find P ys | Some x \<Rightarrow> Some x)"
  by (induction xs) auto

lemma get_sync_job_insert:
  "get_sync_job (d\<lparr>sync_jobs := sync_jobs d @ [j]\<rparr>) k =
     (case get_sync_job d k of
        Some x \<Rightarrow> Some x
      | None \<Rightarrow> if job_id j = k then Some j else None)"
  by (simp add: get_sync_job_def find_append split: option.splits)

lemma has_job_insert:
  "has_job (d\<lparr>sync_jobs := sync_jobs d @ [j]\<rparr>) k \<longleftrightarrow> has_job d k \<or> job_id j = k"
  by (auto simp: has_job_def)

lemma db_add_sync_log_run:
  assumes "has_job (db w) jid"
  shows "db_add_sync_log env jid lvl msg nid w =
           (Inr \<lparr>log_job_id = jid, log_keep_note_id = nid, level = lvl, message = msg,
                  log_created_at = utcnow env (clock w)\<rparr>,
            w\<lparr>db := (db w)\<lparr>sync_logs := sync_logs (db w) @
                        [\<lparr>log_job_id = jid, log_keep_note_id = nid, level = lvl,
                          message = msg, log_created_at = utcnow env (clock w)\<rparr>]\<rparr>,
              clock := Suc (clock w)\<rparr>)"
  using assms
  by (simp add: db_add_sync_log_def bindE_def now_def command_raising_def add_sync_log_def
      Let_def has_job_def)

lemma set_update_run:
  "command (\<lambda>d. update_sync_job d jid st tot proc fl err fin) w =
     (Inr (fst (update_sync_job (db w) jid st tot proc fl err fin)),
      w\<lparr>db := update_row jid (set_fields st tot proc fl err fin) (db w)\<rparr>)"
  by (simp add: command_def snd_update_sync_job)

lemma increment_run:
  "command (\<lambda>d. increment_sync_job_progress d jid p f) w =
     (Inr (fst (increment_sync_job_progress (db w) jid p f)),
      w\<lparr>db := update_row jid (\<lambda>j. j\<lparr>processed_notes := processed_notes j + p,
                                       failed_notes := failed_notes j + f\<rparr>) (db w)\<rparr>)"
  by (simp add: command_def snd_increment_sync_job_progress)


lemma mark_completed_run:
  "mark_completed env jid w =
     (Inr (fst (update_sync_job (db w) jid (Some ''completed'') None None None None
                  (Some (utcnow env (clock w))))),
      w\<lparr>db := update_row jid (set_fields (Some ''completed'') None None None None
                  (Some (utcnow env (clock w)))) (db w),
        clock := Suc (clock w)\<rparr>)"
  by (simp add: mark_completed_def bindE_def now_def set_update_run)

lemma start_job_run:
  assumes "get_sync_job (db w) jid = None"
  shows "\<exists>l w0. start_job env jid uid full w = (Inr l, w0)
           \<and> get_sync_job (db w0) jid =
               Some \<lparr>job_id = jid, user_id = uid, status = ''running'', full_sync = full,
                     total_notes = 0, processed_notes = 0, failed_notes = 0,
                     error_message = None, created_at = utcnow env (clock w),
                     completed_at = None\<rparr>
           \<and> sync_state (db w0) = sync_state (db w)
           \<and> credentials (db w0) = credentials (db w)
           \<and> calls w0 = calls w
           \<and> clock w0 = clock w + 2"
proof -
  let ?j = "\<lparr>job_id = jid, user_id = uid, status = ''queued'', full_sync = full,
             total_notes = 0, processed_notes = 0, failed_notes = 0,
             error_message = None, created_at = utcnow env (clock w), completed_at = None\<rparr>"
  let ?d1 = "(db w)\<lparr>sync_jobs := sync_jobs (db w) @ [?j]\<rparr>"
  let ?w1 = "w\<lparr>db := ?d1, clock := Suc (clock w)\<rparr>"
  have nj: "\<not> has_job (db w) jid"
    using assms by (simp add: get_sync_job_None)
  have c: "db_create_sync_job env jid uid full w = (Inr ?j, ?w1)"
    using nj
    by (simp add: db_create_sync_job_def bindE_def now_def command_raising_def
        create_sync_job_def Let_def has_job_def)
  show ?thesis
    unfolding start_job_def
    by (simp add: bindE_def c mark_running_def set_update_run db_add_sync_log_run
        has_job_insert get_sync_job_update_row get_sync_job_insert assms set_fields_def)
qed


lemma db_get_credentials_some:
  assumes "get_credentials (decrypt env) (db w) uid = Inr c"
  shows "db_get_credentials env uid w = (Inr c, w)"
  using assms by (simp add: db_get_credentials_def bindE_def query_def lift_def)

section \<open>Processing one note: lemmas\<close>

lemma has_job_upsert [simp]:
  "has_job (snd (upsert_sync_state d uid nid page m t1 t2)) k = has_job d k"
  by (simp add: upsert_sync_state_def Let_def)

lemma get_sync_job_upsert [simp]:
  "get_sync_job (snd (upsert_sync_state d uid nid page m t1 t2)) k = get_sync_job d k"
  by (simp add: upsert_sync_state_def Let_def)

lemma frame_upsert [simp]:
  "sync_logs (snd (upsert_sync_state d uid nid page m t1 t2)) = sync_logs d"
  "credentials (snd (upsert_sync_state d uid nid page m t1 t2)) = credentials d"
  by (simp_all add: upsert_sync_state_def Let_def)

lemma get_sync_record_key:
  "get_sync_record d u k = find (\<lambda>r. state_key r = (u, k)) (sync_state d)"
  by (simp add: get_sync_record_def state_key_def)

lemma get_sync_record_upsert_other:
  assumes "(u, k) \<noteq> (uid, nid)"
  shows "get_sync_record (snd (upsert_sync_state d uid nid page m t1 t2)) u k
           = get_sync_record d u k"
proof (cases "(uid, nid) \<in> state_key ` set (sync_state d)")
  case True
  have "find (\<lambda>r. state_key r = (u, k))
          (map (\<lambda>r. if state_key r = (uid, nid)
                     then r\<lparr>notion_page_id := page, keep_modified_at := m, last_synced_at := t2\<rparr>
                     else r) (sync_state d))
        = find (\<lambda>r. state_key r = (u, k)) (sync_state d)"
    using assms by (intro find_map_other) (auto simp: state_key_def)
  with True show ?thesis
    by (simp only: get_sync_record_key sync_state_upsert if_True)
next
  case False
  then show ?thesis
    using assms
    by (simp only: get_sync_record_key sync_state_upsert if_False)
       (auto simp: find_append state_key_def split: option.splits)
qed

lemma get_sync_record_upsert_same:
  "get_sync_record (snd (upsert_sync_state d uid nid page m t1 t2)) uid nid \<noteq> None"
  using upsert_row_present [of d uid nid page m t1 t2]
  by (auto simp: get_sync_record_key find_None_conv)

lemma get_sync_record_upsert_mono:
  assumes "get_sync_record d u k \<noteq> None"
  shows "get_sync_record (snd (upsert_sync_state d uid nid page m t1 t2)) u k \<noteq> None"
proof (cases "(u, k) = (uid, nid)")
  case True
  then show ?thesis using get_sync_record_upsert_same by simp
next
  case False
  then show ?thesis using assms by (simp add: get_sync_record_upsert_other)
qed

lemma note_body_run:
  assumes "payload_of x = Some b"
  shows "note_body x w = (Inr b, w)"
  using assms
  by (auto simp: payload_of_def note_body_def require_def bindE_def return_def
      split: option.splits)

lemma db_upsert_sync_state_run:
  "db_upsert_sync_state env uid nid page m w =
     (Inr (fst (upsert_sync_state (db w) uid nid page m (utcnow env (clock w))
                  (utcnow env (Suc (clock w))))),
      w\<lparr>db := snd (upsert_sync_state (db w) uid nid page m (utcnow env (clock w))
                     (utcnow env (Suc (clock w)))),
        clock := Suc (Suc (clock w))\<rparr>)"
  by (simp add: db_upsert_sync_state_def bindE_def now_def command_def)

lemma write_page_succeeds:
  assumes "payload_of x = Some b" and "sink_answers env tok dbid x sink_succeeds"
  shows "\<exists>page c. write_page env existing x tok dbid w = (Inr page, w\<lparr>calls := calls w @ [c]\<rparr>)
            \<and> is_sink_call c"
proof (cases existing)
  case None
  let ?rq = "\<lparr>cr_api_token = tok, cr_database_id = dbid, cr_note = b\<rparr>"
  have "sink_succeeds 201 (notion_post env (length (calls w)) ?rq)"
    using assms by (simp add: sink_answers_def)
  then obtain resp res page where
    "notion_post env (length (calls w)) ?rq = Inr resp" "status_code resp = 201"
    "json resp = Some res" "page_id res = Some page"
    by (auto simp: sink_succeeds_def split: sum.splits option.splits)
  then show ?thesis
    using None note_body_run [OF assms(1)]
    by (auto simp: write_page_def bindE_def notion_create_def json_of_def require_def
        return_def intro!: exI [of _ "NotionCreate ?rq"])
next
  case (Some ex)
  let ?rq = "\<lparr>ur_api_token = tok, ur_note = b\<rparr>"
  have "sink_succeeds 200 (notion_patch env (length (calls w)) (notion_page_id ex) ?rq)"
    using assms by (simp add: sink_answers_def)
  then obtain resp res page where
    "notion_patch env (length (calls w)) (notion_page_id ex) ?rq = Inr resp"
    "status_code resp = 200" "json resp = Some res" "page_id res = Some page"
    by (auto simp: sink_succeeds_def split: sum.splits option.splits)
  then show ?thesis
    using Some note_body_run [OF assms(1)]
    by (auto simp: write_page_def bindE_def notion_update_def json_of_def require_def
        return_def intro!: exI [of _ "NotionUpdate (notion_page_id ex) ?rq"])
qed

lemma write_page_fails:
  assumes "payload_of x = Some b" and "sink_answers env tok dbid x sink_fails"
  shows "\<exists>e c. write_page env existing x tok dbid w = (Inl e, w\<lparr>calls := calls w @ [c]\<rparr>)
            \<and> is_sink_call c"
proof (cases existing)
  case None
  let ?rq = "\<lparr>cr_api_token = tok, cr_database_id = dbid, cr_note = b\<rparr>"
  have "sink_fails 201 (notion_post env (length (calls w)) ?rq)"
    using assms by (simp add: sink_answers_def)
  then show ?thesis
    using None note_body_run [OF assms(1)]
    by (auto simp: sink_fails_def write_page_def bindE_def notion_create_def raise_def
        split: sum.splits intro!: exI [of _ "NotionCreate ?rq"])
next
  case (Some ex)
  let ?rq = "\<lparr>ur_api_token = tok, ur_note = b\<rparr>"
  have "sink_fails 200 (notion_patch env (length (calls w)) (notion_page_id ex) ?rq)"
    using assms by (simp add: sink_answers_def)
  then show ?thesis
    using Some note_body_run [OF assms(1)]
    by (auto simp: sink_fails_def write_page_def bindE_def notion_update_def raise_def
        split: sum.splits intro!: exI [of _ "NotionUpdate (notion_page_id ex) ?rq"])
qed

lemma parse_modified_at_run:
  assumes "well_formed_note env x"
  shows "\<exists>t. parse_modified_at env x w = (Inr t, w)"
  using assms
  by (auto simp: well_formed_note_def parse_modified_at_def require_def bindE_def return_def
      split: option.splits)

lemma job_id_bump [simp]: "job_id (bump p f j) = job_id j"
  by (simp add: bump_def)

lemma bump_bump: "bump a b (bump c e j) = bump (c + a) (e + b) j"
  by (simp add: bump_def)

lemma bump_zero [simp]: "bump 0 0 j = j"
  by (simp add: bump_def)

lemma increment_bump:
  "command (\<lambda>d. increment_sync_job_progress d jid p f) w =
     (Inr (fst (increment_sync_job_progress (db w) jid p f)),
      w\<lparr>db := update_row jid (bump p f) (db w)\<rparr>)"
  by (simp add: increment_run bump_def [abs_def])

lemma process_note_succeeds:
  assumes "has_job (db w) jid" and "well_formed_note env x"
    and "sink_answers env tok dbid x sink_succeeds"
  shows "\<exists>nid page c m t1 t2 l.
           note_id x = Some nid
         \<and> process_note env jid uid x tok dbid w =
             (Inr (NoteSuccess nid page),
              w\<lparr>db := (snd (upsert_sync_state (db w) uid nid page m t1 t2))
                         \<lparr>sync_logs := sync_logs (db w) @ [l]\<rparr>,
                calls := calls w @ [c], clock := clock w + 3\<rparr>)
         \<and> is_sink_call c"
proof -
  obtain nid b where nid: "note_id x = Some nid" and b: "payload_of x = Some b"
    using assms(2) by (auto simp: well_formed_note_def)
  obtain page c where
    wp: "write_page env (get_sync_record (db w) uid nid) x tok dbid w
           = (Inr page, w\<lparr>calls := calls w @ [c]\<rparr>)"
    and c: "is_sink_call c"
    using write_page_succeeds [OF b assms(3)] by blast
  obtain t where t: "parse_modified_at env x (w\<lparr>calls := calls w @ [c]\<rparr>)
                       = (Inr t, w\<lparr>calls := calls w @ [c]\<rparr>)"
    using parse_modified_at_run [OF assms(2)] by blast
  have "process_note env jid uid x tok dbid w =
          (Inr (NoteSuccess nid page),
           w\<lparr>db := (snd (upsert_sync_state (db w) uid nid page t (utcnow env (clock w))
                            (utcnow env (Suc (clock w)))))
                      \<lparr>sync_logs := sync_logs (db w) @
                         [\<lparr>log_job_id = jid, log_keep_note_id = Some nid, level = ''INFO'',
                           message = ''Successfully synced note '' @ nid @
                                     '' to Notion page '' @ page,
                           log_created_at = utcnow env (Suc (Suc (clock w)))\<rparr>]\<rparr>,
             calls := calls w @ [c], clock := clock w + 3\<rparr>)"
    using assms(1)
    by (simp add: process_note_def nid require_def return_def bindE_def try_except_def
        query_def wp t db_upsert_sync_state_run db_add_sync_log_run)
  with nid c show ?thesis by blast
qed

lemma process_note_fails:
  assumes "has_job (db w) jid" and "well_formed_note env x"
    and "sink_answers env tok dbid x sink_fails"
  shows "\<exists>nid e c l.
           note_id x = Some nid
         \<and> process_note env jid uid x tok dbid w =
             (Inr (NoteFailed nid e),
              w\<lparr>db := (db w)\<lparr>sync_logs := sync_logs (db w) @ [l]\<rparr>,
                calls := calls w @ [c], clock := Suc (clock w)\<rparr>)
         \<and> is_sink_call c"
proof -
  obtain nid b where nid: "note_id x = Some nid" and b: "payload_of x = Some b"
    using assms(2) by (auto simp: well_formed_note_def)
  obtain e c where
    wp: "write_page env (get_sync_record (db w) uid nid) x tok dbid w
           = (Inl e, w\<lparr>calls := calls w @ [c]\<rparr>)"
    and c: "is_sink_call c"
    using write_page_fails [OF b assms(3)] by blast
  have "process_note env jid uid x tok dbid w =
          (Inr (NoteFailed nid (str_exn e)),
           w\<lparr>db := (db w)\<lparr>sync_logs := sync_logs (db w) @
                         [\<lparr>log_job_id = jid, log_keep_note_id = Some nid, level = ''ERROR'',
                           message = ''Failed to process note '' @ nid @ '': '' @ str_exn e,
                           log_created_at = utcnow env (clock w)\<rparr>]\<rparr>,
             calls := calls w @ [c], clock := Suc (clock w)\<rparr>)"
    using assms(1)
    by (simp add: process_note_def nid require_def return_def bindE_def try_except_def
        query_def wp db_add_sync_log_run)
  with nid c show ?thesis by blast
qed

lemma loop_body_run:
  assumes h: "has_job (db w) jid"
    and wf: "well_formed_note env x"
    and ok: "x \<notin> F \<Longrightarrow> sink_answers env tok dbid x sink_succeeds"
    and bad: "x \<in> F \<Longrightarrow> sink_answers env tok dbid x sink_fails"
  shows "\<exists>r w'. loop_body env jid uid tok dbid x (p, f, rs) w =
                  (Inr (p + (if x \<in> F then 0 else 1), f + (if x \<in> F then 1 else 0),
                        rs @ [r]), w')
           \<and> get_sync_job (db w') jid =
               map_option (bump (if x \<in> F then 0 else 1) (if x \<in> F then 1 else 0))
                 (get_sync_job (db w) jid)
           \<and> (\<exists>c. calls w' = calls w @ [c] \<and> is_sink_call c)
           \<and> (\<forall>u k. \<not> (u = uid \<and> note_id x = Some k \<and> x \<notin> F) \<longrightarrow>
                  get_sync_record (db w') u k = get_sync_record (db w) u k)
           \<and> (\<forall>k. x \<notin> F \<and> note_id x = Some k \<longrightarrow> get_sync_record (db w') uid k \<noteq> None)
           \<and> (\<forall>u k. get_sync_record (db w) u k \<noteq> None \<longrightarrow> get_sync_record (db w') u k \<noteq> None)"
proof (cases "x \<in> F")
  case True
  obtain nid e c l where nid: "note_id x = Some nid"
    and run: "process_note env jid uid x tok dbid w =
                (Inr (NoteFailed nid e),
                 w\<lparr>db := (db w)\<lparr>sync_logs := sync_logs (db w) @ [l]\<rparr>,
                   calls := calls w @ [c], clock := Suc (clock w)\<rparr>)"
    and c: "is_sink_call c"
    using process_note_fails [OF h wf bad [OF True]] by blast
  show ?thesis
    using True c
    by (simp add: loop_body_def try_except_def bindE_def run increment_bump return_def
        get_sync_job_update_row update_row_logs_commute)
next
  case False
  obtain nid page c m t1 t2 l where nid: "note_id x = Some nid"
    and run: "process_note env jid uid x tok dbid w =
                (Inr (NoteSuccess nid page),
                 w\<lparr>db := (snd (upsert_sync_state (db w) uid nid page m t1 t2))
                            \<lparr>sync_logs := sync_logs (db w) @ [l]\<rparr>,
                   calls := calls w @ [c], clock := clock w + 3\<rparr>)"
    and c: "is_sink_call c"
    using process_note_succeeds [OF h wf ok [OF False]] by blast
  show ?thesis
    using False c nid
    by (auto simp: loop_body_def try_except_def bindE_def run increment_bump return_def
        get_sync_job_update_row update_row_logs_commute get_sync_record_upsert_other
        get_sync_record_upsert_same get_sync_record_upsert_mono simp del: not_None_eq)
qed

section \<open>The loop over the fetched notes: lemmas\<close>

lemma succeeded_ids_Nil [simp]: "succeeded_ids F [] = {}"
  by (simp add: succeeded_ids_def)

lemma succeeded_ids_Cons:
  "k \<in> succeeded_ids F (x # xs) \<longleftrightarrow> (x \<notin> F \<and> note_id x = Some k) \<or> k \<in> succeeded_ids F xs"
  by (auto simp: succeeded_ids_def)

lemma process_notes_run:
  assumes "has_job (db w) jid"
    and "\<forall>x \<in> set ns. well_formed_note env x"
    and "\<forall>x \<in> set ns. x \<notin> F \<longrightarrow> sink_answers env tok dbid x sink_succeeds"
    and "\<forall>x \<in> set ns. x \<in> F \<longrightarrow> sink_answers env tok dbid x sink_fails"
  shows "\<exists>rs' w'. process_notes env jid uid tok dbid ns (p, f, rs) w =
                    (Inr (p + int (length (filter (\<lambda>x. x \<notin> F) ns)),
                          f + int (length (filter (\<lambda>x. x \<in> F) ns)), rs'), w')
           \<and> get_sync_job (db w') jid =
               map_option (bump (int (length (filter (\<lambda>x. x \<notin> F) ns)))
                                (int (length (filter (\<lambda>x. x \<in> F) ns))))
                 (get_sync_job (db w) jid)
           \<and> (\<exists>new. calls w' = calls w @ new \<and> length new = length ns
                    \<and> (\<forall>c \<in> set new. is_sink_call c))
           \<and> (\<forall>u k. \<not> (u = uid \<and> k \<in> succeeded_ids F ns) \<longrightarrow>
                  get_sync_record (db w') u k = get_sync_record (db w) u k)
           \<and> (\<forall>k \<in> succeeded_ids F ns. get_sync_record (db w') uid k \<noteq> None)
           \<and> (\<forall>u k. get_sync_record (db w) u k \<noteq> None \<longrightarrow> get_sync_record (db w') u k \<noteq> None)"
  using assms
proof (induction ns arbitrary: w p f rs)
  case Nil
  show ?case
    by (cases "get_sync_job (db w) jid") (simp_all add: return_def)
next
  case (Cons x xs)
  let ?s = "if x \<in> F then 0 else (1::int)" and ?e = "if x \<in> F then 1 else (0::int)"
  obtain r w1 where
    step: "loop_body env jid uid tok dbid x (p, f, rs) w = (Inr (p + ?s, f + ?e, rs @ [r]), w1)"
    and job1: "get_sync_job (db w1) jid = map_option (bump ?s ?e) (get_sync_job (db w) jid)"
    and calls1: "\<exists>c. calls w1 = calls w @ [c] \<and> is_sink_call c"
    and same1: "\<forall>u k. \<not> (u = uid \<and> note_id x = Some k \<and> x \<notin> F) \<longrightarrow>
                  get_sync_record (db w1) u k = get_sync_record (db w) u k"
    and new1: "\<forall>k. x \<notin> F \<and> note_id x = Some k \<longrightarrow> get_sync_record (db w1) uid k \<noteq> None"
    and mono1: "\<forall>u k. get_sync_record (db w) u k \<noteq> None \<longrightarrow> get_sync_record (db w1) u k \<noteq> None"
    using loop_body_run [of w jid env x F tok dbid uid p f rs] Cons.prems
    by (auto simp del: not_None_eq)
  obtain j where j: "get_sync_job (db w) jid = Some j"
    using Cons.prems(1) get_sync_job_None [of "db w" jid] by auto
  have h1: "has_job (db w1) jid"
    using job1 j by (auto intro: has_job_get)
  obtain rs' w' where
    rest: "process_notes env jid uid tok dbid xs (p + ?s, f + ?e, rs @ [r]) w1 =
             (Inr (p + ?s + int (length (filter (\<lambda>x. x \<notin> F) xs)),
                   f + ?e + int (length (filter (\<lambda>x. x \<in> F) xs)), rs'), w')"
    and job2: "get_sync_job (db w') jid =
                 map_option (bump (int (length (filter (\<lambda>x. x \<notin> F) xs)))
                                  (int (length (filter (\<lambda>x. x \<in> F) xs))))
                   (get_sync_job (db w1) jid)"
    and calls2: "\<exists>new. calls w' = calls w1 @ new \<and> length new = length xs
                    \<and> (\<forall>c \<in> set new. is_sink_call c)"
    and same2: "\<forall>u k. \<not> (u = uid \<and> k \<in> succeeded_ids F xs) \<longrightarrow>
                  get_sync_record (db w') u k = get_sync_record (db w1) u k"
    and new2: "\<forall>k \<in> succeeded_ids F xs. get_sync_record (db w') uid k \<noteq> None"
    and mono2: "\<forall>u k. get_sync_record (db w1) u k \<noteq> None \<longrightarrow> get_sync_record (db w') u k \<noteq> None"
    using Cons.IH [OF h1, of "p + ?s" "f + ?e" "rs @ [r]"] Cons.prems
    by (auto simp del: not_None_eq)
  have run: "process_notes env jid uid tok dbid (x # xs) (p, f, rs) w =
               (Inr (p + int (length (filter (\<lambda>x. x \<notin> F) (x # xs))),
                     f + int (length (filter (\<lambda>x. x \<in> F) (x # xs))), rs'), w')"
    using rest by (simp add: bindE_def step)
  have job: "get_sync_job (db w') jid =
               map_option (bump (int (length (filter (\<lambda>x. x \<notin> F) (x # xs))))
                                (int (length (filter (\<lambda>x. x \<in> F) (x # xs)))))
                 (get_sync_job (db w) jid)"
    using job1 job2 j by (simp add: bump_bump)
  have cs: "\<exists>new. calls w' = calls w @ new \<and> length new = length (x # xs)
                    \<and> (\<forall>c \<in> set new. is_sink_call c)"
  proof -
    obtain c where c: "calls w1 = calls w @ [c]" "is_sink_call c"
      using calls1 by blast
    obtain new where n: "calls w' = calls w1 @ new" "length new = length xs"
      "\<forall>c \<in> set new. is_sink_call c"
      using calls2 by blast
    have "calls w' = calls w @ (c # new)" "length (c # new) = length (x # xs)"
      "\<forall>a \<in> set (c # new). is_sink_call a"
      using c n by simp_all
    then show ?thesis by blast
  qed
  have same: "\<forall>u k. \<not> (u = uid \<and> k \<in> succeeded_ids F (x # xs)) \<longrightarrow>
                  get_sync_record (db w') u k = get_sync_record (db w) u k"
    using same1 same2 by (auto simp: succeeded_ids_Cons)
  have new: "\<forall>k \<in> succeeded_ids F (x # xs). get_sync_record (db w') uid k \<noteq> None"
  proof
    fix k
    assume "k \<in> succeeded_ids F (x # xs)"
    then consider "x \<notin> F \<and> note_id x = Some k" | "k \<in> succeeded_ids F xs"
      by (auto simp: succeeded_ids_Cons)
    then show "get_sync_record (db w') uid k \<noteq> None"
    proof cases
      case 1
      then have "get_sync_record (db w1) uid k \<noteq> None"
        using new1 by blast
      then show ?thesis
        using mono2 by blast
    next
      case 2
      then show ?thesis
        using new2 by blast
    qed
  qed
  have mono: "\<forall>u k. get_sync_record (db w) u k \<noteq> None \<longrightarrow> get_sync_record (db w') u k \<noteq> None"
    using mono1 mono2 by blast
  from run job cs same new mono show ?case
    by blast
qed

text \<open>
  The other way through the loop body: \<open>_process_note\<close> raises, here for a note without
  the \<open>id\<close> key. The handler counts one failure locally and increments both counters of
  the job row.
\<close>

lemma process_note_without_id:
  assumes "note_id x = None"
  shows "process_note env jid uid x tok dbid w = (Inl (KeyError ''id''), w)"
  using assms by (simp add: process_note_def require_def bindE_def raise_def)

lemma loop_body_without_id:
  assumes "has_job (db w) jid" and "note_id x = None"
  shows "\<exists>r w'. loop_body env jid uid tok dbid x (p, f, rs) w = (Inr (p, f + 1, rs @ [r]), w')
           \<and> get_sync_job (db w') jid = map_option (bump 1 1) (get_sync_job (db w) jid)
           \<and> calls w' = calls w"
  using assms
  by (simp add: loop_body_def try_except_def bindE_def process_note_without_id
      db_add_sync_log_run increment_bump return_def get_sync_job_update_row
      update_row_logs_commute)

section \<open>The phases of a run: lemmas\<close>

lemma log_step:
  assumes "has_job (db w) jid"
  shows "\<exists>l w'. db_add_sync_log env jid lvl msg nid w = (Inr l, w')
           \<and> get_sync_job (db w') = get_sync_job (db w)
           \<and> get_sync_record (db w') = get_sync_record (db w)
           \<and> calls w' = calls w"
  using assms by (simp add: db_add_sync_log_run fun_eq_iff)

lemma py_max_Max: "ts \<noteq> [] \<Longrightarrow> py_max ts = Inr (Max (set ts))"
proof (cases ts)
  case Nil
  assume "ts \<noteq> []"
  with Nil show ?thesis by simp
next
  case (Cons a list)
  then show ?thesis
    using Max.set_eq_fold [of a list] by simp
qed

lemma determine_modified_since_run:
  "determine_modified_since env uid full w = (Inr (expected_since env (db w) uid full), w)"
  by (simp add: determine_modified_since_def expected_since_def bindE_def query_def lift_def
      return_def py_max_Max Let_def)

lemma fetch_notes_run:
  assumes "keep_answers env (length (calls w)) uid tok field"
  shows "fetch_notes_from_keep env uid tok since w =
           (Inr (case field of None \<Rightarrow> [] | Some ns \<Rightarrow> ns),
            w\<lparr>calls := calls w @ [KeepAuth uid tok, KeepNotes (fetch_params env uid since)]\<rparr>)"
proof -
  obtain ar ad where a: "keep_post env (length (calls w)) uid tok = Inr ar"
    "status_code ar = 200" "json ar = Some ad" "auth_status ad = Some ''authenticated''"
    using assms by (auto simp: keep_answers_def auth_accepted_def split: sum.splits option.splits)
  have "case keep_get env (Suc (length (calls w))) (fetch_params env uid since) of
          Inl e \<Rightarrow> False
        | Inr nr \<Rightarrow> status_code nr = 200 \<and> json nr = Some \<lparr>notes_field = field\<rparr>"
    using assms by (simp add: keep_answers_def)
  then obtain nr where n: "keep_get env (Suc (length (calls w))) (fetch_params env uid since) = Inr nr"
    "status_code nr = 200" "json nr = Some \<lparr>notes_field = field\<rparr>"
    by (cases "keep_get env (Suc (length (calls w))) (fetch_params env uid since)") auto
  show ?thesis
    using a n
    by (simp add: fetch_notes_from_keep_def bindE_def keep_auth_def keep_notes_def json_of_def
        return_def)
qed

lemma fetch_phase_run:
  assumes "has_job (db w) jid"
    and "keep_answers env (length (calls w)) uid (cd_google_oauth_token cd) field"
  shows "\<exists>w'. fetch_phase env jid uid full cd w =
                (Inr (case field of None \<Rightarrow> [] | Some ns \<Rightarrow> ns), w')
           \<and> get_sync_job (db w') = get_sync_job (db w)
           \<and> get_sync_record (db w') = get_sync_record (db w)
           \<and> calls w' = calls w @
                 [KeepAuth uid (cd_google_oauth_token cd),
                  KeepNotes (fetch_params env uid (expected_since env (db w) uid full))]"
  using assms
  by (simp add: fetch_phase_def bindE_def determine_modified_since_run db_add_sync_log_run
      fetch_notes_run fun_eq_iff)

lemma total_step:
  assumes "get_sync_job (db w) jid = Some j"
  shows "\<exists>r w'. command (\<lambda>d. update_sync_job d jid None (Some n) None None None None) w
                  = (Inr r, w')
           \<and> get_sync_job (db w') jid = Some (j\<lparr>total_notes := n\<rparr>)
           \<and> get_sync_record (db w') = get_sync_record (db w)
           \<and> calls w' = calls w"
  using assms
  by (simp add: set_update_run get_sync_job_update_row set_fields_def fun_eq_iff)

lemma completed_step:
  assumes "get_sync_job (db w) jid = Some j"
  shows "\<exists>r w'. mark_completed env jid w = (Inr r, w')
           \<and> get_sync_job (db w') jid =
               Some (j\<lparr>status := ''completed'', completed_at := Some (utcnow env (clock w))\<rparr>)
           \<and> get_sync_record (db w') = get_sync_record (db w)
           \<and> calls w' = calls w"
  using assms
  by (simp add: mark_completed_run get_sync_job_update_row set_fields_def fun_eq_iff)

lemma after_fetch_run:
  assumes j: "get_sync_job (db w) jid = Some j"
    and wf: "\<forall>x \<in> set ns. well_formed_note env x"
    and ok: "\<forall>x \<in> set ns. x \<notin> F \<longrightarrow>
               sink_answers env (cd_notion_api_token cd) (cd_notion_database_id cd) x sink_succeeds"
    and bad: "\<forall>x \<in> set ns. x \<in> F \<longrightarrow>
               sink_answers env (cd_notion_api_token cd) (cd_notion_database_id cd) x sink_fails"
  shows "\<exists>w' t. after_fetch env jid uid cd ns w =
                  (Inr \<lparr>res_job_id = jid, res_status = ''completed'',
                         res_summary = Some (int (length ns),
                                             int (length (filter (\<lambda>x. x \<notin> F) ns)),
                                             int (length (filter (\<lambda>x. x \<in> F) ns))),
                         res_error = None\<rparr>, w')
           \<and> get_sync_job (db w') jid =
               Some (j\<lparr>status := ''completed'', total_notes := int (length ns),
                        processed_notes := processed_notes j
                                           + int (length (filter (\<lambda>x. x \<notin> F) ns)),
                        failed_notes := failed_notes j
                                        + int (length (filter (\<lambda>x. x \<in> F) ns)),
                        completed_at := Some t\<rparr>)
           \<and> (\<exists>new. calls w' = calls w @ new \<and> length new = length ns
                    \<and> (\<forall>c \<in> set new. is_sink_call c))
           \<and> (\<forall>u k. \<not> (u = uid \<and> k \<in> succeeded_ids F ns) \<longrightarrow>
                  get_sync_record (db w') u k = get_sync_record (db w) u k)
           \<and> (\<forall>k \<in> succeeded_ids F ns. get_sync_record (db w') uid k \<noteq> None)"
proof -
  let ?S = "int (length (filter (\<lambda>x. x \<notin> F) ns))" and ?E = "int (length (filter (\<lambda>x. x \<in> F) ns))"
  obtain ra wa where a: "command (\<lambda>d. update_sync_job d jid None (Some (int (length ns)))
                                       None None None None) w = (Inr ra, wa)"
    and ja: "get_sync_job (db wa) jid = Some (j\<lparr>total_notes := int (length ns)\<rparr>)"
    and sa: "get_sync_record (db wa) = get_sync_record (db w)" and ca: "calls wa = calls w"
    using total_step [OF j, of "int (length ns)"] by blast
  obtain lb wb where b: "db_add_sync_log env jid ''INFO''
                           (''Fetched '' @ str_int (int (length ns)) @ '' notes from Keep'')
                           None wa = (Inr lb, wb)"
    and jb: "get_sync_job (db wb) = get_sync_job (db wa)"
    and sb: "get_sync_record (db wb) = get_sync_record (db wa)" and cb: "calls wb = calls wa"
    using log_step [OF has_job_get [OF ja]] by blast
  have hb: "has_job (db wb) jid"
    using ja jb by (auto intro: has_job_get)
  obtain rs' wc where
    c: "process_notes env jid uid (cd_notion_api_token cd) (cd_notion_database_id cd) ns
          (0, 0, []) wb = (Inr (0 + ?S, 0 + ?E, rs'), wc)"
    and jc: "get_sync_job (db wc) jid = map_option (bump ?S ?E) (get_sync_job (db wb) jid)"
    and cc: "\<exists>new. calls wc = calls wb @ new \<and> length new = length ns
                    \<and> (\<forall>c \<in> set new. is_sink_call c)"
    and sc: "\<forall>u k. \<not> (u = uid \<and> k \<in> succeeded_ids F ns) \<longrightarrow>
                  get_sync_record (db wc) u k = get_sync_record (db wb) u k"
    and nc: "\<forall>k \<in> succeeded_ids F ns. get_sync_record (db wc) uid k \<noteq> None"
    using process_notes_run [OF hb wf ok bad, of uid 0 0 "[]"] by blast
  have jc': "get_sync_job (db wc) jid = Some (bump ?S ?E (j\<lparr>total_notes := int (length ns)\<rparr>))"
    using jc jb ja by simp
  obtain rd wd where d: "mark_completed env jid wc = (Inr rd, wd)"
    and jd: "get_sync_job (db wd) jid =
               Some ((bump ?S ?E (j\<lparr>total_notes := int (length ns)\<rparr>))
                       \<lparr>status := ''completed'', completed_at := Some (utcnow env (clock wc))\<rparr>)"
    and sd: "get_sync_record (db wd) = get_sync_record (db wc)" and cd: "calls wd = calls wc"
    using completed_step [OF jc'] by blast
  obtain le we where e: "db_add_sync_log env jid ''INFO''
                           (''Sync completed: '' @ str_int ?S @ '' processed, '' @
                            str_int ?E @ '' failed'') None wd = (Inr le, we)"
    and je: "get_sync_job (db we) = get_sync_job (db wd)"
    and se: "get_sync_record (db we) = get_sync_record (db wd)" and ce: "calls we = calls wd"
    using log_step [OF has_job_get [OF jd]] by blast
  have run: "after_fetch env jid uid cd ns w =
               (Inr \<lparr>res_job_id = jid, res_status = ''completed'',
                      res_summary = Some (int (length ns), ?S, ?E), res_error = None\<rparr>, we)"
    using a b c d e
    by (simp add: after_fetch_def Let_def bindE_def return_def)
  have job: "get_sync_job (db we) jid =
               Some (j\<lparr>status := ''completed'', total_notes := int (length ns),
                        processed_notes := processed_notes j + ?S,
                        failed_notes := failed_notes j + ?E,
                        completed_at := Some (utcnow env (clock wc))\<rparr>)"
    using je jd by (simp add: bump_def)
  have cs: "\<exists>new. calls we = calls w @ new \<and> length new = length ns
                    \<and> (\<forall>c \<in> set new. is_sink_call c)"
    using cc ce cd cb ca by simp
  have same: "\<forall>u k. \<not> (u = uid \<and> k \<in> succeeded_ids F ns) \<longrightarrow>
                  get_sync_record (db we) u k = get_sync_record (db w) u k"
    using sc se sd sb sa by simp
  have new: "\<forall>k \<in> succeeded_ids F ns. get_sync_record (db we) uid k \<noteq> None"
    using nc se sd by simp
  from run job cs same new show ?thesis
    by blast
qed

section \<open>Which calls a computation can make: lemmas\<close>

lemma adds_silent:
  assumes "\<And>w. calls (snd (m w)) = calls w"
  shows "adds P m"
  using assms by (simp add: adds_def)

lemma adds_return: "adds P (return x)"
  by (rule adds_silent) (simp add: return_def)

lemma adds_raise: "adds P (raise e)"
  by (rule adds_silent) (simp add: raise_def)

lemma adds_lift: "adds P (lift r)"
  by (rule adds_silent) (simp add: lift_def)

lemma adds_query: "adds P (query f)"
  by (rule adds_silent) (simp add: query_def)

lemma adds_now: "adds P (now env)"
  by (rule adds_silent) (simp add: now_def)

lemma adds_command: "adds P (command f)"
  by (rule adds_silent) (simp add: command_def)

lemma adds_command_raising: "adds P (command_raising f)"
  by (rule adds_silent) (simp add: command_raising_def split: sum.splits prod.splits)

lemma adds_require: "adds P (require v k)"
  by (cases v) (simp_all add: require_def adds_raise adds_return)

lemma adds_json_of: "adds P (json_of r)"
  by (cases "json r") (simp_all add: json_of_def adds_raise adds_return)

lemma adds_one:
  assumes "\<And>w. \<exists>r. m w = (r, w\<lparr>calls := calls w @ [c]\<rparr>)" and "P c"
  shows "adds P m"
  unfolding adds_def
proof
  fix w
  obtain r where "m w = (r, w\<lparr>calls := calls w @ [c]\<rparr>)"
    using assms(1) by blast
  then have "calls (snd (m w)) = calls w @ [c] \<and> list_all P [c]"
    using assms(2) by simp
  then show "\<exists>new. calls (snd (m w)) = calls w @ new \<and> list_all P new"
    by blast
qed

lemma adds_notion_create: "P (NotionCreate rq) \<Longrightarrow> adds P (notion_create env rq)"
  by (rule adds_one [of _ "NotionCreate rq"]) (simp_all add: notion_create_def)

lemma adds_notion_update: "P (NotionUpdate pid rq) \<Longrightarrow> adds P (notion_update env pid rq)"
  by (rule adds_one [of _ "NotionUpdate pid rq"]) (simp_all add: notion_update_def)

lemma adds_notify:
  "P (Notify jid uid msg ctx) \<Longrightarrow> adds P (send_critical_error_notification jid uid msg ctx)"
  by (rule adds_one [of _ "Notify jid uid msg ctx"])
     (simp_all add: send_critical_error_notification_def)

lemma adds_bindE:
  assumes "adds P m" and "\<And>x. adds P (f x)"
  shows "adds P (bindE m f)"
  unfolding adds_def
proof
  fix w
  obtain n1 where 1: "calls (snd (m w)) = calls w @ n1" "list_all P n1"
    using assms(1) unfolding adds_def by blast
  show "\<exists>new. calls (snd (bindE m f w)) = calls w @ new \<and> list_all P new"
  proof (cases "m w")
    case (Pair r w1)
    show ?thesis
    proof (cases r)
      case (Inl e)
      with Pair 1 show ?thesis
        by (auto simp: bindE_def)
    next
      case (Inr x)
      obtain n2 where 2: "calls (snd (f x w1)) = calls w1 @ n2" "list_all P n2"
        using assms(2) [of x] unfolding adds_def by blast
      have "calls (snd (bindE m f w)) = calls w @ (n1 @ n2)" "list_all P (n1 @ n2)"
        using Pair Inr 1 2 by (simp_all add: bindE_def)
      then show ?thesis by blast
    qed
  qed
qed

lemma adds_try_except:
  assumes "adds P m" and "\<And>e. adds P (h e)"
  shows "adds P (try_except m h)"
  unfolding adds_def
proof
  fix w
  obtain n1 where 1: "calls (snd (m w)) = calls w @ n1" "list_all P n1"
    using assms(1) unfolding adds_def by blast
  show "\<exists>new. calls (snd (try_except m h w)) = calls w @ new \<and> list_all P new"
  proof (cases "m w")
    case (Pair r w1)
    show ?thesis
    proof (cases r)
      case (Inr x)
      with Pair 1 show ?thesis
        by (auto simp: try_except_def)
    next
      case (Inl e)
      obtain n2 where 2: "calls (snd (h e w1)) = calls w1 @ n2" "list_all P n2"
        using assms(2) [of e] unfolding adds_def by blast
      have "calls (snd (try_except m h w)) = calls w @ (n1 @ n2)" "list_all P (n1 @ n2)"
        using Pair Inl 1 2 by (simp_all add: try_except_def)
      then show ?thesis by blast
    qed
  qed
qed

lemma adds_if: "adds P a \<Longrightarrow> adds P b \<Longrightarrow> adds P (if c then a else b)"
  by simp

lemma adds_case_option:
  "adds P a \<Longrightarrow> (\<And>y. adds P (b y)) \<Longrightarrow> adds P (case x of None \<Rightarrow> a | Some y \<Rightarrow> b y)"
  by (cases x) simp_all

lemma adds_case_prod: "(\<And>a b. adds P (f a b)) \<Longrightarrow> adds P (case x of (a, b) \<Rightarrow> f a b)"
  by (cases x) simp

lemmas adds_intros =
  adds_bindE adds_try_except adds_if adds_case_option adds_case_prod adds_return adds_raise
  adds_lift adds_query adds_now adds_command adds_command_raising adds_require adds_json_of

lemma adds_db_add_sync_log: "adds P (db_add_sync_log env jid lvl msg nid)"
  unfolding db_add_sync_log_def by (intro adds_intros)

lemma adds_db_upsert_sync_state: "adds P (db_upsert_sync_state env uid nid page m)"
  unfolding db_upsert_sync_state_def by (intro adds_intros)

lemma adds_mark_failed: "adds P (mark_failed env jid msg)"
  unfolding mark_failed_def by (intro adds_intros)

lemma adds_mark_completed: "adds P (mark_completed env jid)"
  unfolding mark_completed_def by (intro adds_intros)

lemma adds_note_body: "adds P (note_body n)"
  unfolding note_body_def by (intro adds_intros)

lemma adds_parse_modified_at: "adds P (parse_modified_at env n)"
  unfolding parse_modified_at_def by (intro adds_intros)

lemma adds_write_page:
  "adds (\<lambda>c. \<not> is_keep_call c) (write_page env existing n tok dbid)"
  unfolding write_page_def
  by (intro adds_intros adds_note_body adds_notion_create adds_notion_update) simp_all

lemma adds_process_note:
  "adds (\<lambda>c. \<not> is_keep_call c) (process_note env jid uid n tok dbid)"
  unfolding process_note_def
  by (intro adds_intros adds_write_page adds_parse_modified_at adds_db_upsert_sync_state
      adds_db_add_sync_log)

lemma adds_loop_body:
  "adds (\<lambda>c. \<not> is_keep_call c) (loop_body env jid uid tok dbid n acc)"
  unfolding loop_body_def
  by (intro adds_intros adds_process_note adds_db_add_sync_log)

lemma adds_process_notes:
  "adds (\<lambda>c. \<not> is_keep_call c) (process_notes env jid uid tok dbid ns acc)"
proof (induction ns arbitrary: acc)
  case Nil
  show ?case by (simp add: adds_return)
next
  case (Cons n ns)
  show ?case
    by (simp only: process_notes.simps) (intro adds_bindE adds_loop_body Cons.IH)
qed

lemma adds_after_fetch:
  "adds (\<lambda>c. \<not> is_keep_call c) (after_fetch env jid uid cd ns)"
  unfolding after_fetch_def Let_def
  by (intro adds_intros adds_db_add_sync_log adds_process_notes adds_mark_completed)

lemma adds_on_exception:
  "adds (\<lambda>c. \<not> is_keep_call c) (on_exception env jid uid full e)"
  unfolding on_exception_def Let_def
  by (intro adds_intros adds_db_add_sync_log adds_mark_failed adds_notify) simp

lemma fetch_notes_calls:
  assumes "auth_accepted (keep_post env (length (calls w)) uid tok)"
  shows "\<exists>r. fetch_notes_from_keep env uid tok since w =
               (r, w\<lparr>calls := calls w @
                       [KeepAuth uid tok, KeepNotes (fetch_params env uid since)]\<rparr>)"
proof -
  obtain ar ad where a: "keep_post env (length (calls w)) uid tok = Inr ar"
    "status_code ar = 200" "json ar = Some ad" "auth_status ad = Some ''authenticated''"
    using assms by (auto simp: auth_accepted_def split: sum.splits option.splits)
  show ?thesis
    using a
    by (auto simp: fetch_notes_from_keep_def bindE_def keep_auth_def keep_notes_def json_of_def
        return_def raise_def split: sum.splits option.splits)
qed

section \<open>Claims about the store\<close>

text \<open>
  C9. For a job id with no row, \<open>update_sync_job\<close> and \<open>increment_sync_job_progress\<close>
  return \<open>None\<close> and leave the store as it was. Neither can raise: their result type
  has no exception.
\<close>

theorem missing_job_writes_are_noops:
  assumes "get_sync_job d jid = None"
  shows "update_sync_job d jid st tot proc fl err fin = (None, d)
       \<and> increment_sync_job_progress d jid p f = (None, d)"
  using assms by (simp add: update_sync_job_def increment_sync_job_progress_def)

theorem missing_job_writes_are_noops_witness:
  "get_sync_job queued_store 2 = None
   \<and> update_sync_job queued_store 2 (Some ''failed'') None None None (Some ''x'') (Some 3)
       = (None, queued_store)
   \<and> increment_sync_job_progress queued_store 2 1 0 = (None, queued_store)"
proof -
  have h: "get_sync_job queued_store 2 = None"
    by (simp add: get_sync_job_def queued_store_def queued_job_def)
  from missing_job_writes_are_noops [OF h] h show ?thesis
    by blast
qed



text \<open>
  C8. \<open>create_sync_job\<close> for a job id that already has a row: the INSERT violates the
  primary key and the call raises; it does not succeed. The API gateway creates the row
  and hands the same job id to \<open>execute_sync\<close>, whose own \<open>create_sync_job\<close> (line 70,
  outside the \<open>try\<close>) then raises: the run ends there, with the job still \<open>queued\<close>.
\<close>

theorem create_sync_job_twice_raises:
  "create_sync_job alice_store 1 ''alice'' True 0 = Inr (queued_job, queued_store)
   \<and> create_sync_job queued_store 1 ''alice'' True 5
       = Inl (IntegrityError ''duplicate key value violates unique constraint'')
   \<and> execute_sync (demo_env (Some [])) 1 ''alice'' True (world_of queued_store)
       = (Inl (IntegrityError ''duplicate key value violates unique constraint''),
          \<lparr>db = queued_store, calls = [], clock = 1\<rparr>)"
  by (simp add: create_sync_job_def alice_store_def queued_store_def queued_job_def
      execute_sync_def start_job_def db_create_sync_job_def bindE_def now_def
      command_raising_def world_of_def Let_def)

section \<open>Claims about abort and the missing-credentials branch\<close>

text \<open>
  C4. \<open>abort_sync\<close> on a job whose status is completed, failed or cancelled raises
  HTTP 400 with a message that quotes the current status, and changes nothing. On a job
  whose status is queued or running it sets status \<open>cancelled\<close>, \<open>completed_at\<close> to the
  clock reading and \<open>error_message\<close> to \<open>Job cancelled by user\<close>, leaves the other fields
  and the other jobs alone, and appends one WARNING log row.
\<close>

theorem abort_guard:
  assumes "UUID env s = Some jid" and "get_sync_job (db w) jid = Some j"
  shows "(status j \<in> {''completed'', ''failed'', ''cancelled''} \<longrightarrow>
            abort_sync env s w =
              (Inl (HTTPException 400
                      (''Cannot abort job with status '' @ [CHR 0x27] @ status j @ [CHR 0x27])),
               w))
       \<and> (status j \<in> {''queued'', ''running''} \<longrightarrow>
            (\<exists>resp w'. abort_sync env s w = (Inr resp, w')
               \<and> abort_status resp = ''cancelled''
               \<and> get_sync_job (db w') jid =
                   Some (j\<lparr>status := ''cancelled'',
                            error_message := Some ''Job cancelled by user'',
                            completed_at := Some (utcnow env (clock w))\<rparr>)
               \<and> (\<forall>k. k \<noteq> jid \<longrightarrow> get_sync_job (db w') k = get_sync_job (db w) k)
               \<and> sync_logs (db w') = sync_logs (db w) @
                     [\<lparr>log_job_id = jid, log_keep_note_id = None, level = ''WARNING'',
                       message = ''Sync job cancelled by user'',
                       log_created_at = utcnow env (Suc (clock w))\<rparr>]))"
proof (intro conjI impI)
  assume "status j \<in> {''completed'', ''failed'', ''cancelled''}"
  then show "abort_sync env s w =
      (Inl (HTTPException 400
              (''Cannot abort job with status '' @ [CHR 0x27] @ status j @ [CHR 0x27])), w)"
    using assms by (auto simp: abort_sync_def bindE_def query_def raise_def)
next
  assume st: "status j \<in> {''queued'', ''running''}"
  have h: "has_job (db w) jid"
    using assms(2) by (rule has_job_get)
  from st have open_job: "status j \<notin> set [''completed'', ''failed'', ''cancelled'']"
    by auto
  show "\<exists>resp w'. abort_sync env s w = (Inr resp, w')
               \<and> abort_status resp = ''cancelled''
               \<and> get_sync_job (db w') jid =
                   Some (j\<lparr>status := ''cancelled'',
                            error_message := Some ''Job cancelled by user'',
                            completed_at := Some (utcnow env (clock w))\<rparr>)
               \<and> (\<forall>k. k \<noteq> jid \<longrightarrow> get_sync_job (db w') k = get_sync_job (db w) k)
               \<and> sync_logs (db w') = sync_logs (db w) @
                     [\<lparr>log_job_id = jid, log_keep_note_id = None, level = ''WARNING'',
                       message = ''Sync job cancelled by user'',
                       log_created_at = utcnow env (Suc (clock w))\<rparr>]"
    using assms h open_job
    by (simp add: abort_sync_def bindE_def query_def now_def set_update_run
        db_add_sync_log_run return_def get_sync_job_update_row set_fields_def)
qed

theorem abort_guard_witness:
  "UUID (demo_env None) ''job-1'' = Some 1
   \<and> get_sync_job (db (world_of queued_store)) 1 = Some queued_job
   \<and> status queued_job \<in> {''queued'', ''running''}
   \<and> status (queued_job\<lparr>status := ''completed''\<rparr>) \<in> {''completed'', ''failed'', ''cancelled''}
   \<and> (\<exists>resp w'. abort_sync (demo_env None) ''job-1'' (world_of queued_store) = (Inr resp, w')
         \<and> get_sync_job (db w') 1 =
             Some (queued_job\<lparr>status := ''cancelled'',
                     error_message := Some ''Job cancelled by user'', completed_at := Some 0\<rparr>))
   \<and> abort_sync (demo_env None) ''job-1''
        (world_of (queued_store\<lparr>sync_jobs := [queued_job\<lparr>status := ''completed''\<rparr>]\<rparr>))
      = (Inl (HTTPException 400
               (''Cannot abort job with status '' @ [CHR 0x27] @ ''completed'' @ [CHR 0x27])),
         world_of (queued_store\<lparr>sync_jobs := [queued_job\<lparr>status := ''completed''\<rparr>]\<rparr>))"
proof -
  have u: "UUID (demo_env None) ''job-1'' = Some 1"
    by (simp add: demo_env_def)
  have g1: "get_sync_job (db (world_of queued_store)) 1 = Some queued_job"
    by (simp add: world_of_def queued_store_def get_sync_job_def queued_job_def)
  have g2: "get_sync_job
              (db (world_of (queued_store\<lparr>sync_jobs := [queued_job\<lparr>status := ''completed''\<rparr>]\<rparr>))) 1
            = Some (queued_job\<lparr>status := ''completed''\<rparr>)"
    by (simp add: world_of_def queued_store_def get_sync_job_def queued_job_def)
  have s1: "status queued_job \<in> {''queued'', ''running''}"
    by (simp add: queued_job_def)
  have s2: "status (queued_job\<lparr>status := ''completed''\<rparr>) \<in> {''completed'', ''failed'', ''cancelled''}"
    by simp
  from abort_guard [OF u g1] s1
  have a: "\<exists>resp w'. abort_sync (demo_env None) ''job-1'' (world_of queued_store) = (Inr resp, w')
         \<and> get_sync_job (db w') 1 =
             Some (queued_job\<lparr>status := ''cancelled'',
                     error_message := Some ''Job cancelled by user'', completed_at := Some 0\<rparr>)"
    by (auto simp: demo_env_def world_of_def)
  from abort_guard [OF u g2] s2
  have b: "abort_sync (demo_env None) ''job-1''
        (world_of (queued_store\<lparr>sync_jobs := [queued_job\<lparr>status := ''completed''\<rparr>]\<rparr>))
      = (Inl (HTTPException 400
               (''Cannot abort job with status '' @ [CHR 0x27] @ ''completed'' @ [CHR 0x27])),
         world_of (queued_store\<lparr>sync_jobs := [queued_job\<lparr>status := ''completed''\<rparr>]\<rparr>))"
    by simp
  from u g1 s1 s2 a b show ?thesis by blast
qed



section \<open>Claims about a run that reaches the fetch\<close>

lemma run_prefix:
  assumes fresh: "get_sync_job (db w) jid = None"
    and creds: "get_credentials (decrypt env) (db w) uid = Inr (Some cd)"
    and fetch: "keep_answers env (length (calls w)) uid (cd_google_oauth_token cd) field"
  shows "\<exists>w1. execute_sync env jid uid full w =
                try_except (after_fetch env jid uid cd (case field of None \<Rightarrow> [] | Some ns \<Rightarrow> ns))
                  (on_exception env jid uid full) w1
           \<and> get_sync_job (db w1) jid =
               Some \<lparr>job_id = jid, user_id = uid, status = ''running'', full_sync = full,
                     total_notes = 0, processed_notes = 0, failed_notes = 0,
                     error_message = None, created_at = utcnow env (clock w),
                     completed_at = None\<rparr>
           \<and> get_sync_record (db w1) = get_sync_record (db w)
           \<and> calls w1 = calls w @
                 [KeepAuth uid (cd_google_oauth_token cd),
                  KeepNotes (fetch_params env uid (expected_since env (db w) uid full))]"
proof -
  obtain l w0 where s: "start_job env jid uid full w = (Inr l, w0)"
    and j0: "get_sync_job (db w0) jid =
               Some \<lparr>job_id = jid, user_id = uid, status = ''running'', full_sync = full,
                     total_notes = 0, processed_notes = 0, failed_notes = 0,
                     error_message = None, created_at = utcnow env (clock w),
                     completed_at = None\<rparr>"
    and f0: "sync_state (db w0) = sync_state (db w)" "credentials (db w0) = credentials (db w)"
      "calls w0 = calls w"
    using start_job_run [OF fresh, of env uid full] by blast
  have c: "db_get_credentials env uid w0 = (Inr (Some cd), w0)"
    using creds f0(2) by (simp add: db_get_credentials_some get_credentials_def)
  have r0: "get_sync_record (db w0) = get_sync_record (db w)"
    using f0(1) by (simp add: get_sync_record_def fun_eq_iff)
  have e0: "expected_since env (db w0) uid full = expected_since env (db w) uid full"
    using f0(1) by (simp add: expected_since_def get_sync_state_by_user_def)
  obtain w1 where p: "fetch_phase env jid uid full cd w0 =
                        (Inr (case field of None \<Rightarrow> [] | Some ns \<Rightarrow> ns), w1)"
    and j1: "get_sync_job (db w1) = get_sync_job (db w0)"
    and r1: "get_sync_record (db w1) = get_sync_record (db w0)"
    and c1: "calls w1 = calls w0 @
               [KeepAuth uid (cd_google_oauth_token cd),
                KeepNotes (fetch_params env uid (expected_since env (db w0) uid full))]"
    using fetch_phase_run [OF has_job_get [OF j0], where env = env and uid = uid and cd = cd
        and field = field and full = full] fetch f0(3)
    by auto
  have "execute_sync env jid uid full w =
          try_except (after_fetch env jid uid cd (case field of None \<Rightarrow> [] | Some ns \<Rightarrow> ns))
            (on_exception env jid uid full) w1"
    using s c p by (simp add: execute_sync_def sync_steps_def bindE_def try_except_def)
  with j0 j1 r0 r1 c1 e0 f0(3) show ?thesis
    by auto
qed

lemma run_to_completion:
  assumes fresh: "get_sync_job (db w) jid = None"
    and creds: "get_credentials (decrypt env) (db w) uid = Inr (Some cd)"
    and fetch: "keep_answers env (length (calls w)) uid (cd_google_oauth_token cd) field"
    and ns: "ns = (case field of None \<Rightarrow> [] | Some xs \<Rightarrow> xs)"
    and wf: "\<forall>x \<in> set ns. well_formed_note env x"
    and ok: "\<forall>x \<in> set ns. x \<notin> F \<longrightarrow>
               sink_answers env (cd_notion_api_token cd) (cd_notion_database_id cd) x sink_succeeds"
    and bad: "\<forall>x \<in> set ns. x \<in> F \<longrightarrow>
               sink_answers env (cd_notion_api_token cd) (cd_notion_database_id cd) x sink_fails"
  shows "\<exists>w' t new.
           execute_sync env jid uid full w =
             (Inr \<lparr>res_job_id = jid, res_status = ''completed'',
                    res_summary = Some (int (length ns),
                                        int (length (filter (\<lambda>x. x \<notin> F) ns)),
                                        int (length (filter (\<lambda>x. x \<in> F) ns))),
                    res_error = None\<rparr>, w')
         \<and> get_sync_job (db w') jid =
             Some \<lparr>job_id = jid, user_id = uid, status = ''completed'', full_sync = full,
                   total_notes = int (length ns),
                   processed_notes = int (length (filter (\<lambda>x. x \<notin> F) ns)),
                   failed_notes = int (length (filter (\<lambda>x. x \<in> F) ns)),
                   error_message = None, created_at = utcnow env (clock w),
                   completed_at = Some t\<rparr>
         \<and> calls w' = calls w @
               [KeepAuth uid (cd_google_oauth_token cd),
                KeepNotes (fetch_params env uid (expected_since env (db w) uid full))] @ new
         \<and> length new = length ns
         \<and> (\<forall>c \<in> set new. is_sink_call c)
         \<and> (\<forall>u k. \<not> (u = uid \<and> k \<in> succeeded_ids F ns) \<longrightarrow>
                get_sync_record (db w') u k = get_sync_record (db w) u k)
         \<and> (\<forall>k \<in> succeeded_ids F ns. get_sync_record (db w') uid k \<noteq> None)"
proof -
  let ?j = "\<lparr>job_id = jid, user_id = uid, status = ''running'', full_sync = full,
             total_notes = 0, processed_notes = 0, failed_notes = 0,
             error_message = None, created_at = utcnow env (clock w), completed_at = None\<rparr>"
  obtain w1 where e: "execute_sync env jid uid full w =
                        try_except (after_fetch env jid uid cd ns)
                          (on_exception env jid uid full) w1"
    and j1: "get_sync_job (db w1) jid = Some ?j"
    and r1: "get_sync_record (db w1) = get_sync_record (db w)"
    and c1: "calls w1 = calls w @
               [KeepAuth uid (cd_google_oauth_token cd),
                KeepNotes (fetch_params env uid (expected_since env (db w) uid full))]"
    using run_prefix [OF fresh creds fetch, where full = full] ns by auto
  obtain w' t where a: "after_fetch env jid uid cd ns w1 =
                  (Inr \<lparr>res_job_id = jid, res_status = ''completed'',
                         res_summary = Some (int (length ns),
                                             int (length (filter (\<lambda>x. x \<notin> F) ns)),
                                             int (length (filter (\<lambda>x. x \<in> F) ns))),
                         res_error = None\<rparr>, w')"
    and j': "get_sync_job (db w') jid =
               Some (?j\<lparr>status := ''completed'', total_notes := int (length ns),
                        processed_notes := processed_notes ?j
                                           + int (length (filter (\<lambda>x. x \<notin> F) ns)),
                        failed_notes := failed_notes ?j
                                        + int (length (filter (\<lambda>x. x \<in> F) ns)),
                        completed_at := Some t\<rparr>)"
    and c': "\<exists>new. calls w' = calls w1 @ new \<and> length new = length ns
                    \<and> (\<forall>c \<in> set new. is_sink_call c)"
    and s': "\<forall>u k. \<not> (u = uid \<and> k \<in> succeeded_ids F ns) \<longrightarrow>
                  get_sync_record (db w') u k = get_sync_record (db w1) u k"
    and n': "\<forall>k \<in> succeeded_ids F ns. get_sync_record (db w') uid k \<noteq> None"
    using after_fetch_run [OF j1 wf ok bad, where uid = uid] by blast
  obtain new where new: "calls w' = calls w1 @ new" "length new = length ns"
    "\<forall>c \<in> set new. is_sink_call c"
    using c' by blast
  have 1: "execute_sync env jid uid full w =
             (Inr \<lparr>res_job_id = jid, res_status = ''completed'',
                    res_summary = Some (int (length ns),
                                        int (length (filter (\<lambda>x. x \<notin> F) ns)),
                                        int (length (filter (\<lambda>x. x \<in> F) ns))),
                    res_error = None\<rparr>, w')"
    using e a by (simp add: try_except_def)
  have 2: "get_sync_job (db w') jid =
             Some \<lparr>job_id = jid, user_id = uid, status = ''completed'', full_sync = full,
                   total_notes = int (length ns),
                   processed_notes = int (length (filter (\<lambda>x. x \<notin> F) ns)),
                   failed_notes = int (length (filter (\<lambda>x. x \<in> F) ns)),
                   error_message = None, created_at = utcnow env (clock w),
                   completed_at = Some t\<rparr>"
    using j' by simp
  have 3: "calls w' = calls w @
               [KeepAuth uid (cd_google_oauth_token cd),
                KeepNotes (fetch_params env uid (expected_since env (db w) uid full))] @ new"
    using new(1) c1 by simp
  have 4: "\<forall>u k. \<not> (u = uid \<and> k \<in> succeeded_ids F ns) \<longrightarrow>
                get_sync_record (db w') u k = get_sync_record (db w) u k"
    using s' r1 by simp
  from 1 2 3 new(2,3) 4 n' show ?thesis
    by blast
qed






text \<open>
  C10. When the Keep Extractor authenticates and answers the notes request with status
  200 and a JSON object without the \<open>notes\<close> key, \<open>_fetch_notes_from_keep\<close> returns the
  empty list, and the run (on a job id without a row, for a user whose credentials
  decrypt) ends \<open>completed\<close> with \<open>total_notes = 0\<close>, both counters 0, no error message
  and no sink call.
\<close>

theorem missing_notes_key_completes:
  assumes "get_sync_job (db w) jid = None"
    and "get_credentials (decrypt env) (db w) uid = Inr (Some cd)"
    and "keep_answers env (length (calls w)) uid (cd_google_oauth_token cd) None"
  shows "fst (fetch_notes_from_keep env uid (cd_google_oauth_token cd) since w) = Inr []
       \<and> (\<exists>w' j. execute_sync env jid uid full w =
                    (Inr \<lparr>res_job_id = jid, res_status = ''completed'',
                           res_summary = Some (0, 0, 0), res_error = None\<rparr>, w')
              \<and> get_sync_job (db w') jid = Some j
              \<and> status j = ''completed''
              \<and> total_notes j = 0 \<and> processed_notes j = 0 \<and> failed_notes j = 0
              \<and> error_message j = None
              \<and> calls w' = calls w @
                    [KeepAuth uid (cd_google_oauth_token cd),
                     KeepNotes (fetch_params env uid (expected_since env (db w) uid full))])"
proof
  show "fst (fetch_notes_from_keep env uid (cd_google_oauth_token cd) since w) = Inr []"
    using fetch_notes_run [OF assms(3), of since] by simp
next
  have e: "[] = (case None :: keep_note list option of None \<Rightarrow> [] | Some xs \<Rightarrow> xs)"
    by simp
  from run_to_completion [OF assms e, where F = "{}" and full = full]
  obtain w' t new where
    1: "execute_sync env jid uid full w =
          (Inr \<lparr>res_job_id = jid, res_status = ''completed'',
                 res_summary = Some (0, 0, 0), res_error = None\<rparr>, w')"
    and 2: "get_sync_job (db w') jid =
             Some \<lparr>job_id = jid, user_id = uid, status = ''completed'', full_sync = full,
                   total_notes = 0, processed_notes = 0, failed_notes = 0,
                   error_message = None, created_at = utcnow env (clock w),
                   completed_at = Some t\<rparr>"
    and 3: "calls w' = calls w @
               [KeepAuth uid (cd_google_oauth_token cd),
                KeepNotes (fetch_params env uid (expected_since env (db w) uid full))] @ new"
      "length new = 0"
    by auto
  show "\<exists>w' j. execute_sync env jid uid full w =
                    (Inr \<lparr>res_job_id = jid, res_status = ''completed'',
                           res_summary = Some (0, 0, 0), res_error = None\<rparr>, w')
              \<and> get_sync_job (db w') jid = Some j
              \<and> status j = ''completed''
              \<and> total_notes j = 0 \<and> processed_notes j = 0 \<and> failed_notes j = 0
              \<and> error_message j = None
              \<and> calls w' = calls w @
                    [KeepAuth uid (cd_google_oauth_token cd),
                     KeepNotes (fetch_params env uid (expected_since env (db w) uid full))]"
    using 1 2 3
    by (intro exI [of _ w']
        exI [of _ "\<lparr>job_id = jid, user_id = uid, status = ''completed'', full_sync = full,
                   total_notes = 0, processed_notes = 0, failed_notes = 0,
                   error_message = None, created_at = utcnow env (clock w),
                   completed_at = Some t\<rparr>"]) simp
qed

theorem missing_notes_key_completes_witness:
  "get_sync_job (db (world_of alice_store)) 1 = None
   \<and> get_credentials (decrypt (demo_env None)) (db (world_of alice_store)) ''alice''
       = Inr (Some alice_creds)
   \<and> keep_answers (demo_env None) (length (calls (world_of alice_store))) ''alice''
        (cd_google_oauth_token alice_creds) None
   \<and> fst (fetch_notes_from_keep (demo_env None) ''alice'' (cd_google_oauth_token alice_creds)
            None (world_of alice_store)) = Inr []
   \<and> (\<exists>w' j. execute_sync (demo_env None) 1 ''alice'' False (world_of alice_store) =
                 (Inr \<lparr>res_job_id = 1, res_status = ''completed'',
                        res_summary = Some (0, 0, 0), res_error = None\<rparr>, w')
          \<and> get_sync_job (db w') 1 = Some j
          \<and> status j = ''completed'' \<and> total_notes j = 0)"
proof -
  have h1: "get_sync_job (db (world_of alice_store)) 1 = None"
    by (simp add: world_of_def alice_store_def get_sync_job_def)
  have h2: "get_credentials (decrypt (demo_env None)) (db (world_of alice_store)) ''alice''
              = Inr (Some alice_creds)"
    by (simp add: world_of_def alice_store_def get_credentials_def demo_env_def alice_creds_def)
  have h3: "keep_answers (demo_env None) (length (calls (world_of alice_store))) ''alice''
              (cd_google_oauth_token alice_creds) None"
    by (simp add: keep_answers_def auth_accepted_def demo_env_def)
  from missing_notes_key_completes [OF h1 h2 h3, of None False] h1 h2 h3
  show ?thesis by blast
qed

text \<open>
  C6 fails when \<open>_process_note\<close> raises, as it does for a note without the \<open>id\<close> key
  (line 335 is outside its \<open>try\<close>). The handler of lines 180--196 counts one failure
  locally, but its call \<open>increment_sync_job_progress(job_id, failed=1)\<close> leaves
  \<open>processed\<close> at its default 1: the job row gets both counters incremented, and ends
  with \<open>processed_notes + failed_notes = 2 > 1 = total_notes\<close>, while the returned
  summary says 0 processed and 1 failed.
\<close>

theorem note_without_id_counts_twice:
  "fst (execute_sync (demo_env (Some [idless_note])) 1 ''alice'' True (world_of alice_store))
     = Inr \<lparr>res_job_id = 1, res_status = ''completed'', res_summary = Some (1, 0, 1),
             res_error = None\<rparr>
   \<and> get_sync_job
        (db (snd (execute_sync (demo_env (Some [idless_note])) 1 ''alice'' True
                    (world_of alice_store)))) 1
     = Some \<lparr>job_id = 1, user_id = ''alice'', status = ''completed'', full_sync = True,
              total_notes = 1, processed_notes = 1, failed_notes = 1, error_message = None,
              created_at = 0, completed_at = Some 5\<rparr>"
  by code_simp

text \<open>
  C3 fails. \<open>abort_sync\<close> checks the current status before it writes \<open>cancelled\<close>, but
  the terminal writes of \<open>execute_sync\<close> check nothing. When the abort is served while
  the run awaits the Keep Extractor, the job goes running, cancelled, completed: the
  terminal status is written twice, and the row ends \<open>completed\<close> with the error message
  of the cancellation. Without the abort, the rest of the run is what \<open>execute_sync\<close> does.
\<close>

theorem abort_then_completion_overwrites:
  "fst (db_get_credentials (demo_env (Some [])) ''alice'' w_running)
     = Inr (Some alice_creds)
   \<and> fst (fetch_phase (demo_env (Some [])) 1 ''alice'' True alice_creds w_running) = Inr []
   \<and> execute_sync (demo_env (Some [])) 1 ''alice'' True (world_of alice_store)
       = after_fetch (demo_env (Some [])) 1 ''alice'' alice_creds [] w_fetched
   \<and> map_option status (get_sync_job (db w_running) 1) = Some ''running''
   \<and> map_option status (get_sync_job (db w_fetched) 1) = Some ''running''
   \<and> fst (abort_sync (demo_env (Some [])) ''job-1'' w_fetched)
       = Inr \<lparr>abort_job_id = ''job-1'', abort_status = ''cancelled'',
               abort_message = ''Sync job has been cancelled''\<rparr>
   \<and> map_option status (get_sync_job (db w_aborted) 1) = Some ''cancelled''
   \<and> fst (after_fetch (demo_env (Some [])) 1 ''alice'' alice_creds [] w_aborted)
       = Inr \<lparr>res_job_id = 1, res_status = ''completed'', res_summary = Some (0, 0, 0),
               res_error = None\<rparr>
   \<and> map_option status (get_sync_job (db w_finished) 1) = Some ''completed''
   \<and> map_option error_message (get_sync_job (db w_finished) 1)
       = Some (Some ''Job cancelled by user'')"
  by code_simp

section \<open>The fetch window\<close>

text \<open>
  C5. In a run that reaches the fetch (job id without a row, credentials that decrypt,
  authentication accepted), the run makes exactly one notes request to the Keep
  Extractor. Its \<open>modified_since\<close> parameter is absent when \<open>full_sync\<close> is true, also when
  the user has sync-state rows; absent when \<open>full_sync\<close> is false and the user has no
  row; and otherwise the ISO string of the greatest \<open>last_synced_at\<close> among the user's
  rows (\<open>isoformat()\<close> of a datetime is never the empty string).
\<close>

theorem incremental_window:
  assumes "get_sync_job (db w) jid = None"
    and "get_credentials (decrypt env) (db w) uid = Inr (Some cd)"
    and "auth_accepted (keep_post env (length (calls w)) uid (cd_google_oauth_token cd))"
    and "\<And>t. isoformat env t \<noteq> []"
  shows "\<exists>ps rest.
           calls (snd (execute_sync env jid uid full w)) =
             calls w @ [KeepAuth uid (cd_google_oauth_token cd), KeepNotes ps] @ rest
         \<and> list_all (\<lambda>c. \<not> is_keep_call c) rest
         \<and> modified_since ps =
             (if full then None
              else if get_sync_state_by_user (db w) uid = [] then None
              else Some (isoformat env
                           (Max (set (map last_synced_at (get_sync_state_by_user (db w) uid))))))"
proof -
  let ?tok = "cd_google_oauth_token cd"
  let ?E = "expected_since env (db w) uid full"
  let ?ps = "fetch_params env uid ?E"
  obtain l w0 where s: "start_job env jid uid full w = (Inr l, w0)"
    and j0: "get_sync_job (db w0) jid =
               Some \<lparr>job_id = jid, user_id = uid, status = ''running'', full_sync = full,
                     total_notes = 0, processed_notes = 0, failed_notes = 0,
                     error_message = None, created_at = utcnow env (clock w),
                     completed_at = None\<rparr>"
    and f0: "sync_state (db w0) = sync_state (db w)" "credentials (db w0) = credentials (db w)"
      "calls w0 = calls w"
    using start_job_run [OF assms(1), of env uid full] by blast
  have c: "db_get_credentials env uid w0 = (Inr (Some cd), w0)"
    using assms(2) f0(2) by (simp add: db_get_credentials_some get_credentials_def)
  have d: "determine_modified_since env uid full w0 = (Inr ?E, w0)"
    using f0(1)
    by (simp add: determine_modified_since_run expected_since_def get_sync_state_by_user_def)
  obtain lb wb where lg: "db_add_sync_log env jid ''INFO''
                            (''Fetching notes from Keep (modified_since='' @
                             (case ?E of None \<Rightarrow> ''None'' | Some s \<Rightarrow> s) @ '')'') None w0
                          = (Inr lb, wb)"
    and cb: "calls wb = calls w0"
    using log_step [OF has_job_get [OF j0]] by blast
  have "auth_accepted (keep_post env (length (calls wb)) uid ?tok)"
    using assms(3) cb f0(3) by simp
  then obtain r where fr: "fetch_notes_from_keep env uid ?tok ?E wb =
                             (r, wb\<lparr>calls := calls wb @ [KeepAuth uid ?tok, KeepNotes ?ps]\<rparr>)"
    using fetch_notes_calls by blast
  let ?w1 = "wb\<lparr>calls := calls wb @ [KeepAuth uid ?tok, KeepNotes ?ps]\<rparr>"
  have fp: "fetch_phase env jid uid full cd w0 = (r, ?w1)"
    using d lg fr by (simp add: fetch_phase_def bindE_def)
  have c1: "calls ?w1 = calls w @ [KeepAuth uid ?tok, KeepNotes ?ps]"
    using cb f0(3) by simp
  have "\<exists>rest. calls (snd (execute_sync env jid uid full w)) = calls ?w1 @ rest
                \<and> list_all (\<lambda>c. \<not> is_keep_call c) rest"
  proof (cases r)
    case (Inl e)
    have "execute_sync env jid uid full w = on_exception env jid uid full e ?w1"
      using s c fp Inl by (simp add: execute_sync_def sync_steps_def bindE_def try_except_def)
    then show ?thesis
      using adds_on_exception [of env jid uid full e] unfolding adds_def by metis
  next
    case (Inr ns)
    have "execute_sync env jid uid full w =
            try_except (after_fetch env jid uid cd ns) (on_exception env jid uid full) ?w1"
      using s c fp Inr by (simp add: execute_sync_def sync_steps_def bindE_def try_except_def)
    moreover have "adds (\<lambda>c. \<not> is_keep_call c)
                     (try_except (after_fetch env jid uid cd ns) (on_exception env jid uid full))"
      by (intro adds_try_except adds_after_fetch adds_on_exception)
    ultimately show ?thesis
      unfolding adds_def by metis
  qed
  then obtain rest where
    r: "calls (snd (execute_sync env jid uid full w)) =
          calls w @ [KeepAuth uid ?tok, KeepNotes ?ps] @ rest"
    "list_all (\<lambda>c. \<not> is_keep_call c) rest"
    using c1 by auto
  have m: "modified_since ?ps =
             (if full then None
              else if get_sync_state_by_user (db w) uid = [] then None
              else Some (isoformat env
                           (Max (set (map last_synced_at (get_sync_state_by_user (db w) uid))))))"
    using assms(4) by (simp add: fetch_params_def expected_since_def)
  from r m show ?thesis
    by blast
qed

theorem incremental_window_witness:
  "get_sync_job (db (world_of some_rows)) 1 = None
   \<and> get_credentials (decrypt (demo_env (Some []))) (db (world_of some_rows)) ''alice''
       = Inr (Some alice_creds)
   \<and> auth_accepted (keep_post (demo_env (Some [])) (length (calls (world_of some_rows)))
        ''alice'' (cd_google_oauth_token alice_creds))
   \<and> (\<exists>ps rest. calls (snd (execute_sync (demo_env (Some [])) 1 ''alice'' False
                                (world_of some_rows)))
                   = [KeepAuth ''alice'' ''g'', KeepNotes ps] @ rest
                 \<and> modified_since ps = Some ''T70'')
   \<and> (\<exists>ps rest. calls (snd (execute_sync (demo_env (Some [])) 1 ''alice'' True
                                (world_of some_rows)))
                   = [KeepAuth ''alice'' ''g'', KeepNotes ps] @ rest
                 \<and> modified_since ps = None)
   \<and> (\<exists>ps rest. calls (snd (execute_sync (demo_env (Some [])) 1 ''bob'' False
                                (world_of (some_rows\<lparr>credentials :=
                                   [\<lparr>cred_user_id = ''bob'', google_oauth_token = ''g'',
                                     notion_api_token = ''n'', notion_database_id = ''d'',
                                     updated_at = 0\<rparr>],
                                   sync_state := []\<rparr>))))
                   = [KeepAuth ''bob'' ''g'', KeepNotes ps] @ rest
                 \<and> modified_since ps = None)"
proof -
  let ?E = "demo_env (Some [])"
  let ?bob = "world_of (some_rows\<lparr>credentials :=
                                   [\<lparr>cred_user_id = ''bob'', google_oauth_token = ''g'',
                                     notion_api_token = ''n'', notion_database_id = ''d'',
                                     updated_at = 0\<rparr>],
                                   sync_state := []\<rparr>)"
  have h1: "get_sync_job (db (world_of some_rows)) 1 = None"
    by (simp add: world_of_def some_rows_def alice_store_def get_sync_job_def)
  have h2: "get_credentials (decrypt ?E) (db (world_of some_rows)) ''alice''
              = Inr (Some alice_creds)"
    by (simp add: world_of_def some_rows_def alice_store_def get_credentials_def demo_env_def
        alice_creds_def)
  have h3: "auth_accepted (keep_post ?E (length (calls (world_of some_rows))) ''alice''
              (cd_google_oauth_token alice_creds))"
    by (simp add: auth_accepted_def demo_env_def)
  have h4: "\<And>t. isoformat ?E t \<noteq> []"
    by (simp add: demo_env_def)
  have rows: "get_sync_state_by_user (db (world_of some_rows)) ''alice'' \<noteq> []"
    "Max (set (map last_synced_at (get_sync_state_by_user (db (world_of some_rows)) ''alice'')))
       = 70"
    by (simp_all add: world_of_def some_rows_def get_sync_state_by_user_def)
  have iso: "isoformat ?E 70 = ''T70''"
    by code_simp
  have b1: "get_sync_job (db ?bob) 1 = None"
    by (simp add: world_of_def some_rows_def alice_store_def get_sync_job_def)
  have b2: "get_credentials (decrypt ?E) (db ?bob) ''bob''
              = Inr (Some (alice_creds\<lparr>cd_user_id := ''bob''\<rparr>))"
    by (simp add: world_of_def some_rows_def alice_store_def get_credentials_def demo_env_def
        alice_creds_def)
  have b3: "auth_accepted (keep_post ?E (length (calls ?bob)) ''bob''
              (cd_google_oauth_token (alice_creds\<lparr>cd_user_id := ''bob''\<rparr>)))"
    by (simp add: auth_accepted_def demo_env_def)
  have b4: "get_sync_state_by_user (db ?bob) ''bob'' = []"
    by (simp add: world_of_def get_sync_state_by_user_def)
  have c0: "calls (world_of some_rows) = []" "calls ?bob = []"
    "cd_google_oauth_token alice_creds = ''g''"
    by (simp_all add: world_of_def alice_creds_def)
  from incremental_window [OF h1 h2 h3 h4, of False] rows iso c0
  have w1: "\<exists>ps rest. calls (snd (execute_sync ?E 1 ''alice'' False (world_of some_rows)))
                   = [KeepAuth ''alice'' ''g'', KeepNotes ps] @ rest
                 \<and> modified_since ps = Some ''T70''"
    by auto
  from incremental_window [OF h1 h2 h3 h4, of True] c0
  have w2: "\<exists>ps rest. calls (snd (execute_sync ?E 1 ''alice'' True (world_of some_rows)))
                   = [KeepAuth ''alice'' ''g'', KeepNotes ps] @ rest
                 \<and> modified_since ps = None"
    by auto
  from incremental_window [OF b1 b2 b3 h4, of False] b4 c0
  have w3: "\<exists>ps rest. calls (snd (execute_sync ?E 1 ''bob'' False ?bob))
                   = [KeepAuth ''bob'' ''g'', KeepNotes ps] @ rest
                 \<and> modified_since ps = None"
    by auto
  from h1 h2 h3 w1 w2 w3 show ?thesis
    by blast
qed

end
